theory Spec2Isabelle
  imports Complex_Main
begin

section \<open>Python values and the library operations the bridges use\<close>

text \<open>
  The two bridges (\<^verbatim>\<open>tts-engine/bridge.py\<close> and \<^verbatim>\<open>vision-engine/bridge.py\<close>) read
  JSON lines, so every value they inspect is what \<^verbatim>\<open>json.loads\<close> returns: \<^verbatim>\<open>None\<close>, a
  \<^verbatim>\<open>bool\<close>, an \<^verbatim>\<open>int\<close>, a \<^verbatim>\<open>float\<close>, a \<^verbatim>\<open>str\<close>, a \<^verbatim>\<open>list\<close> or a \<^verbatim>\<open>dict\<close> with string
  keys. A \<^verbatim>\<open>str\<close> is a list of characters, one \<^typ>\<open>char\<close> per code point (code points
  below 256), so that \<^const>\<open>length\<close> is Python's \<^verbatim>\<open>len\<close>. A finite \<^verbatim>\<open>float\<close> is the rational
  number it denotes exactly; \<^verbatim>\<open>json.loads\<close> also accepts \<^verbatim>\<open>NaN\<close> and the infinities. A
  \<^verbatim>\<open>dict\<close> is an association list in insertion order, looked up with \<^const>\<open>map_of\<close>.
\<close>

datatype pyfloat = Finite rat | PosInf | NegInf | NaN

datatype json =
    JNull
  | JBool bool
  | JInt int
  | JFloat pyfloat
  | JStr string
  | JArr "json list"
  | JObj "(string \<times> json) list"

text \<open>
  An exception is its class and its message \<^verbatim>\<open>str(e)\<close>. Every class listed derives from
  \<^verbatim>\<open>Exception\<close>; \<open>RuntimeError\<close> stands for \<^verbatim>\<open>RuntimeError\<close> and its subclasses (the
  classes an \<^verbatim>\<open>except RuntimeError\<close> clause catches), \<open>JSONDecodeError\<close> for what an
  \<^verbatim>\<open>except json.JSONDecodeError\<close> clause catches.
\<close>

datatype exc_class =
    RuntimeError
  | JSONDecodeError
  | AttributeError
  | TypeError
  | IndexError
  | ZeroDivisionError
  | OverflowError
  | MemoryError
  | OSError
  | ImportError
  | OtherException

datatype exc = Exc exc_class string

fun exc_class_of :: "exc \<Rightarrow> exc_class" where
  "exc_class_of (Exc k m) = k"

fun exc_str :: "exc \<Rightarrow> string" where
  "exc_str (Exc k m) = m"

text \<open>
  The parts of the Python runtime and of the operating system that the bridges call and
  that are not computed here: the JSON decoder, the file system, and the formatting and
  rounding of floats. \<open>json_loads\<close> returns \<open>Inl e\<close> when \<^verbatim>\<open>json.loads\<close> raises \<open>e\<close>;
  \<open>path_exists\<close> and \<open>fd_exists\<close> say whether \<^verbatim>\<open>os.stat\<close> succeeds on a path and on a file
  descriptor; \<open>float_str\<close> is \<^verbatim>\<open>str\<close> of a float; \<open>float_round\<close> maps a rational to the
  nearest float (the value of a float literal, of an int division, of a float sum);
  \<open>round3\<close> is \<^verbatim>\<open>round(x, 3)\<close> on a finite float; \<open>container_repr\<close> is \<^verbatim>\<open>str\<close> of a list or a
  dict.
\<close>

record py_runtime =
  json_loads :: "string \<Rightarrow> exc + json"
  path_exists :: "string \<Rightarrow> bool"
  fd_exists :: "int \<Rightarrow> bool"
  float_str :: "pyfloat \<Rightarrow> string"
  float_round :: "rat \<Rightarrow> rat"
  round3 :: "rat \<Rightarrow> rat"
  container_repr :: "json \<Rightarrow> string"

subsection \<open>Truthiness, \<^verbatim>\<open>len\<close>, \<^verbatim>\<open>dict.get\<close>\<close>

fun truthy :: "json \<Rightarrow> bool" where
  "truthy JNull = False"
| "truthy (JBool b) = b"
| "truthy (JInt i) = (i \<noteq> 0)"
| "truthy (JFloat f) = (f \<noteq> Finite 0)"
| "truthy (JStr s) = (s \<noteq> [])"
| "truthy (JArr xs) = (xs \<noteq> [])"
| "truthy (JObj kvs) = (kvs \<noteq> [])"

fun type_name :: "json \<Rightarrow> string" where
  "type_name JNull = ''NoneType''"
| "type_name (JBool b) = ''bool''"
| "type_name (JInt i) = ''int''"
| "type_name (JFloat f) = ''float''"
| "type_name (JStr s) = ''str''"
| "type_name (JArr xs) = ''list''"
| "type_name (JObj kvs) = ''dict''"

text \<open>\<^verbatim>\<open>len(v)\<close>: defined on strings, lists and dicts, a \<^verbatim>\<open>TypeError\<close> on the rest.\<close>

fun py_len :: "json \<Rightarrow> exc + nat" where
  "py_len (JStr s) = Inr (length s)"
| "py_len (JArr xs) = Inr (length xs)"
| "py_len (JObj kvs) = Inr (length (remdups (map fst kvs)))"
| "py_len v = Inl (Exc TypeError (''object of type '' @ [CHR 0x27] @ type_name v @ [CHR 0x27] @ '' has no len()''))"

text \<open>\<^verbatim>\<open>d.get(k, default)\<close> on a dict.\<close>

definition dict_get :: "(string \<times> json) list \<Rightarrow> string \<Rightarrow> json \<Rightarrow> json" where
  "dict_get kvs k dflt = (case map_of kvs k of None \<Rightarrow> dflt | Some v \<Rightarrow> v)"

text \<open>
  \<^verbatim>\<open>v.get(k, default)\<close> on any decoded value: only a dict has the method, every other
  value raises \<^verbatim>\<open>AttributeError\<close>.
\<close>

fun py_get :: "json \<Rightarrow> string \<Rightarrow> json \<Rightarrow> exc + json" where
  "py_get (JObj kvs) k dflt = Inr (dict_get kvs k dflt)"
| "py_get v k dflt =
     Inl (Exc AttributeError ([CHR 0x27] @ type_name v @ [CHR 0x27] @ '' object has no attribute '' @ [CHR 0x27] @ ''get'' @ [CHR 0x27]))"

subsection \<open>\<^verbatim>\<open>str\<close> of a value, as an f-string interpolates it\<close>

definition digit_char :: "nat \<Rightarrow> char" where
  "digit_char d = ''0123456789'' ! d"

fun str_nat :: "nat \<Rightarrow> string" where
  "str_nat n = (if n < 10 then [digit_char n] else str_nat (n div 10) @ [digit_char (n mod 10)])"

declare str_nat.simps [simp del]

definition str_int :: "int \<Rightarrow> string" where
  "str_int i = (if i < 0 then CHR ''-'' # str_nat (nat (- i)) else str_nat (nat i))"

fun py_str :: "py_runtime \<Rightarrow> json \<Rightarrow> string" where
  "py_str py JNull = ''None''"
| "py_str py (JBool b) = (if b then ''True'' else ''False'')"
| "py_str py (JInt i) = str_int i"
| "py_str py (JFloat f) = float_str py f"
| "py_str py (JStr s) = s"
| "py_str py v = container_repr py v"

subsection \<open>\<^verbatim>\<open>str.strip\<close>, \<^verbatim>\<open>str.lower\<close>, \<^verbatim>\<open>in\<close>\<close>

text \<open>The code points below 256 for which \<^verbatim>\<open>str.isspace\<close> holds.\<close>

definition is_space :: "char \<Rightarrow> bool" where
  "is_space c = (let n = (of_char c :: nat) in
     (9 \<le> n \<and> n \<le> 13) \<or> (28 \<le> n \<and> n \<le> 32) \<or> n = 133 \<or> n = 160)"

definition strip :: "string \<Rightarrow> string" where
  "strip s = rev (dropWhile is_space (rev (dropWhile is_space s)))"

text \<open>
  \<^verbatim>\<open>str.lower\<close> below code point 256: the ASCII capitals and the Latin-1 capitals
  (\<open>0xC0\<close> to \<open>0xDE\<close> but the multiplication sign \<open>0xD7\<close>) move up by 32.
\<close>

definition lower_char :: "char \<Rightarrow> char" where
  "lower_char c = (let n = (of_char c :: nat) in
     if (65 \<le> n \<and> n \<le> 90) \<or> (192 \<le> n \<and> n \<le> 222 \<and> n \<noteq> 215) then char_of (n + 32) else c)"

definition lower :: "string \<Rightarrow> string" where
  "lower s = map lower_char s"

text \<open>\<^verbatim>\<open>needle in hay\<close> on strings.\<close>

fun contains :: "string \<Rightarrow> string \<Rightarrow> bool" where
  "contains needle [] = (needle = [])"
| "contains needle (c # cs) = (take (length needle) (c # cs) = needle \<or> contains needle cs)"

subsection \<open>\<^verbatim>\<open>os.path.exists\<close> and \<^verbatim>\<open>os.path.join\<close>\<close>

text \<open>
  \<^verbatim>\<open>os.path.exists(v)\<close> calls \<^verbatim>\<open>os.stat(v)\<close> and turns \<^verbatim>\<open>OSError\<close> and \<^verbatim>\<open>ValueError\<close> into
  \<^verbatim>\<open>False\<close>. A string is a path; an integer (a \<^verbatim>\<open>bool\<close> is one) is a file descriptor, and
  one that does not fit a C \<^verbatim>\<open>int\<close> raises \<^verbatim>\<open>OverflowError\<close>; any other value raises
  \<^verbatim>\<open>TypeError\<close>.
\<close>

definition fd_stat :: "py_runtime \<Rightarrow> int \<Rightarrow> exc + bool" where
  "fd_stat py n =
     (if n < - (2 ^ 31) then Inl (Exc OverflowError ''fd is less than minimum'')
      else if 2 ^ 31 \<le> n then Inl (Exc OverflowError ''fd is greater than maximum'')
      else Inr (fd_exists py n))"

fun os_path_exists :: "py_runtime \<Rightarrow> json \<Rightarrow> exc + bool" where
  "os_path_exists py (JStr p) = Inr (path_exists py p)"
| "os_path_exists py (JInt n) = fd_stat py n"
| "os_path_exists py (JBool b) = fd_stat py (if b then 1 else 0)"
| "os_path_exists py v =
     Inl (Exc TypeError (''stat: path should be string, bytes, os.PathLike or integer, not '' @ type_name v))"

text \<open>\<^verbatim>\<open>os.path.join(a, b)\<close> on POSIX.\<close>

definition os_path_join :: "string \<Rightarrow> string \<Rightarrow> string" where
  "os_path_join a b =
     (if take 1 b = ''/'' then b
      else if a = [] \<or> last a = CHR ''/'' then a @ b
      else a @ ''/'' @ b)"

section \<open>Responses, events and the shared \<^verbatim>\<open>except\<close> clauses\<close>

text \<open>
  A response is the dict literal handed to \<^verbatim>\<open>send\<close>, which prints \<^verbatim>\<open>json.dumps\<close> of it as one
  line on stdout. The trace of a run lists, in order, what the process does to the world
  outside: creating and removing the temporary directory, taking a line from stdin, and
  sending a response. The diagnostic text written to stderr by \<^verbatim>\<open>log\<close> is not part of the
  trace, and \<^verbatim>\<open>print\<close>, \<^verbatim>\<open>tempfile.mkdtemp\<close> and \<^verbatim>\<open>shutil.rmtree(..., ignore_errors=True)\<close> are
  taken not to raise.
\<close>

type_synonym response = "(string \<times> json) list"

datatype event =
    Mkdtemp string
  | Send response
  | Read string
  | Rmtree string

text \<open>
  The two dict literals of the error responses: with an \<^verbatim>\<open>"id"\<close> entry (the handlers) and
  without one (the main loop).
\<close>

definition error_response :: "json \<Rightarrow> string \<Rightarrow> string \<Rightarrow> response" where
  "error_response req_id code message =
     [(''type'', JStr ''error''), (''id'', req_id), (''code'', JStr code), (''message'', JStr message)]"

definition error_no_id :: "string \<Rightarrow> string \<Rightarrow> response" where
  "error_no_id code message =
     [(''type'', JStr ''error''), (''code'', JStr code), (''message'', JStr message)]"

definition ready :: response where
  "ready = [(''type'', JStr ''ready'')]"

text \<open>
  The \<^verbatim>\<open>except\<close> clauses that close the \<^verbatim>\<open>try\<close> block of \<^verbatim>\<open>generate\<close> (lines 126 to 131) and
  of \<^verbatim>\<open>caption\<close> (lines 188 to 193), which are the same text:
  \<^verbatim>\<open>
    except RuntimeError as e:
        if "out of memory" in str(e).lower():
            return {"type": "error", "id": req_id, "code": "OUT_OF_MEMORY", "message": str(e)}
        return {"type": "error", "id": req_id, "code": "ENGINE_ERROR", "message": str(e)}
    except Exception as e:
        return {"type": "error", "id": req_id, "code": "ENGINE_ERROR", "message": str(e)}
  \<close>
\<close>

definition except_clauses :: "json \<Rightarrow> exc \<Rightarrow> response" where
  "except_clauses req_id e =
     (if exc_class_of e = RuntimeError then
        (if contains ''out of memory'' (lower (exc_str e))
         then error_response req_id ''OUT_OF_MEMORY'' (exc_str e)
         else error_response req_id ''ENGINE_ERROR'' (exc_str e))
      else error_response req_id ''ENGINE_ERROR'' (exc_str e))"

section \<open>The TTS bridge: \<^verbatim>\<open>generate\<close>\<close>

text \<open>
  The model capability of the TTS bridge. \<open>mkdtemp\<close> is the directory
  \<^verbatim>\<open>tempfile.mkdtemp\<close> returns; \<open>tts_load\<close> is \<open>Some e\<close> when \<^verbatim>\<open>load_model()\<close> raises \<open>e\<close>;
  \<open>sample_rate\<close> is \<^verbatim>\<open>model.sr\<close>; \<open>model_generate\<close> is \<^verbatim>\<open>model.generate\<close> called with the
  text, the voice sample when one is passed, and the three options (the two imports that
  open the \<^verbatim>\<open>try\<close> block count as part of the call), and returns the number of frames
  \<^verbatim>\<open>wav.shape[1]\<close> of the waveform; \<open>ta_save\<close> is \<^verbatim>\<open>ta.save\<close> on the output path.
\<close>

record tts_model =
  mkdtemp :: string
  tts_load :: "exc option"
  sample_rate :: nat
  model_generate :: "json \<Rightarrow> json option \<Rightarrow> json \<Rightarrow> json \<Rightarrow> json \<Rightarrow> exc + nat"
  ta_save :: "string \<Rightarrow> nat \<Rightarrow> exc option"

text \<open>A float literal of the source: the float nearest to the decimal.\<close>

definition float_lit :: "py_runtime \<Rightarrow> rat \<Rightarrow> json" where
  "float_lit py q = JFloat (Finite (float_round py q))"

text \<open>The format \<^verbatim>\<open>{request_counter:04d}\<close>: the decimal digits, zero-padded to four.\<close>

definition pad4 :: "string \<Rightarrow> string" where
  "pad4 s = replicate (4 - length s) CHR ''0'' @ s"

text \<open>The condition \<^verbatim>\<open>voice_sample and not os.path.exists(voice_sample)\<close> of line 82.\<close>

definition voice_missing :: "py_runtime \<Rightarrow> json \<Rightarrow> exc + bool" where
  "voice_missing py voice_sample =
     (if truthy voice_sample
      then (case os_path_exists py voice_sample of Inl e \<Rightarrow> Inl e | Inr found \<Rightarrow> Inr (\<not> found))
      else Inr False)"

text \<open>
  The \<^verbatim>\<open>try\<close> statement of \<^verbatim>\<open>generate\<close> (lines 90 to 131): the response and the new value of
  the global \<^verbatim>\<open>request_counter\<close>, which line 112 increments before the file is saved.
\<close>

definition generate_try ::
  "py_runtime \<Rightarrow> tts_model \<Rightarrow> string \<Rightarrow> nat \<Rightarrow> json \<Rightarrow> json \<Rightarrow> json \<Rightarrow> json \<Rightarrow> json \<Rightarrow> json \<Rightarrow> response \<times> nat" where
  "generate_try py tts temp_dir request_counter req_id text voice_sample exaggeration cfg_weight temperature =
     (case model_generate tts text (if truthy voice_sample then Some voice_sample else None)
             exaggeration cfg_weight temperature of
        Inl e \<Rightarrow> (except_clauses req_id e, request_counter)
      | Inr frames \<Rightarrow>
          (let counter' = request_counter + 1;
               output_path = os_path_join temp_dir (''tts_'' @ pad4 (str_nat counter') @ ''.wav'')
           in case ta_save tts output_path frames of
                Some e \<Rightarrow> (except_clauses req_id e, counter')
              | None \<Rightarrow>
                  if sample_rate tts = 0
                  then (except_clauses req_id (Exc ZeroDivisionError ''division by zero''), counter')
                  else ([(''type'', JStr ''audio''), (''id'', req_id), (''path'', JStr output_path),
                         (''duration'', JFloat (Finite (round3 py
                            (float_round py (of_nat frames / of_nat (sample_rate tts))))))],
                        counter')))"

text \<open>
  Statements in sequence where each may raise: the first exception leaves the function.
\<close>

definition bind_exc :: "exc + 'a \<Rightarrow> ('a \<Rightarrow> exc + 'b) \<Rightarrow> exc + 'b" where
  "bind_exc m f = (case m of Inl e \<Rightarrow> Inl e | Inr x \<Rightarrow> f x)"

text \<open>
  \<^verbatim>\<open>generate(request)\<close>: \<open>Inl e\<close> when an exception leaves the function (the lines before
  the \<^verbatim>\<open>try\<close> are not guarded), otherwise the response and the new \<^verbatim>\<open>request_counter\<close>.
\<close>

definition generate ::
  "py_runtime \<Rightarrow> tts_model \<Rightarrow> string \<Rightarrow> nat \<Rightarrow> json \<Rightarrow> exc + response \<times> nat" where
  "generate py tts temp_dir request_counter request =
     bind_exc (py_get request ''id'' (JStr (''req_'' @ str_nat request_counter))) (\<lambda>req_id.
     bind_exc (py_get request ''text'' (JStr [])) (\<lambda>text.
     bind_exc (py_get request ''voice_sample'' JNull) (\<lambda>voice_sample.
     bind_exc (py_get request ''options'' (JObj [])) (\<lambda>options.
     if \<not> truthy text
     then Inr (error_response req_id ''INVALID_TEXT'' ''Text is empty'', request_counter)
     else
     bind_exc (py_len text) (\<lambda>n.
     if n > 10000
     then Inr (error_response req_id ''INVALID_TEXT'' ''Text too long (max 10000 chars)'',
               request_counter)
     else
     bind_exc (voice_missing py voice_sample) (\<lambda>missing.
     if missing
     then Inr (error_response req_id ''VOICE_NOT_FOUND''
                 (''Voice sample not found: '' @ py_str py voice_sample), request_counter)
     else
     bind_exc (py_get options ''exaggeration'' (float_lit py (5 / 10))) (\<lambda>exaggeration.
     bind_exc (py_get options ''cfg_weight'' (float_lit py (5 / 10))) (\<lambda>cfg_weight.
     bind_exc (py_get options ''temperature'' (float_lit py (8 / 10))) (\<lambda>temperature.
     Inr (generate_try py tts temp_dir request_counter req_id text voice_sample
            exaggeration cfg_weight temperature))))))))))"

section \<open>The vision bridge: \<^verbatim>\<open>format_position\<close> and \<^verbatim>\<open>caption\<close>\<close>

definition position_map :: "(string \<times> string) list" where
  "position_map =
     [(''top'', ''near the top of the page''),
      (''middle'', ''in the middle of the page''),
      (''bottom'', ''near the bottom of the page''),
      (''full-page'', ''taking the full page''),
      (''inline'', ''inline with the text'')]"

definition ordinals :: "string list" where
  "ordinals = [''First'', ''Second'', ''Third'', ''Fourth'', ''Fifth'',
               ''Sixth'', ''Seventh'', ''Eighth'', ''Ninth'', ''Tenth'']"

text \<open>
  \<^verbatim>\<open>position_map.get(position, "on the page")\<close>: the keys are strings, so only a string can
  be found; a list or a dict is unhashable and raises \<^verbatim>\<open>TypeError\<close>.
\<close>

fun pos_desc_of :: "json \<Rightarrow> exc + string" where
  "pos_desc_of (JStr s) =
     Inr (case map_of position_map s of None \<Rightarrow> ''on the page'' | Some d \<Rightarrow> d)"
| "pos_desc_of (JArr xs) =
     Inl (Exc TypeError (''unhashable type: '' @ [CHR 0x27] @ ''list'' @ [CHR 0x27]))"
| "pos_desc_of (JObj kvs) =
     Inl (Exc TypeError (''unhashable type: '' @ [CHR 0x27] @ ''dict'' @ [CHR 0x27]))"
| "pos_desc_of v = Inr ''on the page''"

text \<open>
  Lines 86 to 89 on an integer: \<^verbatim>\<open>ordinals[image_index]\<close> counts a negative index from the
  end of the list and raises \<^verbatim>\<open>IndexError\<close> below \<open>-10\<close>.
\<close>

definition int_ordinal :: "int \<Rightarrow> exc + string" where
  "int_ordinal image_index =
     (if image_index < int (length ordinals) then
        (if 0 \<le> image_index then Inr (ordinals ! nat image_index)
         else if - int (length ordinals) \<le> image_index
           then Inr (ordinals ! nat (int (length ordinals) + image_index))
         else Inl (Exc IndexError ''list index out of range''))
      else Inr (''Image '' @ str_int (image_index + 1)))"

text \<open>The comparison \<^verbatim>\<open>f < 10\<close> and the sum \<^verbatim>\<open>f + 1\<close> on a float.\<close>

fun float_less_int :: "pyfloat \<Rightarrow> int \<Rightarrow> bool" where
  "float_less_int (Finite q) n = (q < of_int n)"
| "float_less_int NegInf n = True"
| "float_less_int PosInf n = False"
| "float_less_int NaN n = False"

fun float_succ :: "py_runtime \<Rightarrow> pyfloat \<Rightarrow> pyfloat" where
  "float_succ py (Finite q) = Finite (float_round py (q + 1))"
| "float_succ py f = f"

text \<open>
  Lines 86 to 89 on any decoded value. A \<^verbatim>\<open>bool\<close> is an \<^verbatim>\<open>int\<close>; a float below 10 cannot
  index a list; \<^verbatim>\<open><\<close> between an \<^verbatim>\<open>int\<close> and any other value raises \<^verbatim>\<open>TypeError\<close>.
\<close>

fun ordinal_of :: "py_runtime \<Rightarrow> json \<Rightarrow> exc + string" where
  "ordinal_of py (JInt i) = int_ordinal i"
| "ordinal_of py (JBool b) = int_ordinal (if b then 1 else 0)"
| "ordinal_of py (JFloat f) =
     (if float_less_int f (int (length ordinals))
      then Inl (Exc TypeError ''list indices must be integers or slices, not float'')
      else Inr (''Image '' @ float_str py (float_succ py f)))"
| "ordinal_of py v =
     Inl (Exc TypeError ([CHR 0x27] @ ''<'' @ [CHR 0x27] @ '' not supported between instances of ''
            @ [CHR 0x27] @ type_name v @ [CHR 0x27] @ '' and '' @ [CHR 0x27] @ ''int'' @ [CHR 0x27]))"

definition format_position :: "py_runtime \<Rightarrow> json \<Rightarrow> json \<Rightarrow> json \<Rightarrow> exc + string" where
  "format_position py position image_index page_number =
     bind_exc (pos_desc_of position) (\<lambda>pos_desc.
     bind_exc (ordinal_of py image_index) (\<lambda>ordinal.
     if truthy page_number
     then Inr (ordinal @ '' image on page '' @ py_str py page_number @ '', '' @ pos_desc)
     else Inr (ordinal @ '' image, '' @ pos_desc)))"

text \<open>
  The model capability of the vision bridge. \<open>vis_load\<close> is \<open>Some e\<close> when
  \<^verbatim>\<open>load_model()\<close> raises \<open>e\<close>; \<open>describe\<close> is lines 118 to 175 up to the call of \<^verbatim>\<open>strip\<close>:
  opening the image, running the model and decoding its output.
\<close>

record vision_model =
  vis_load :: "exc option"
  describe :: "json \<Rightarrow> exc + string"

text \<open>The \<^verbatim>\<open>try\<close> statement of \<^verbatim>\<open>caption\<close> (lines 117 to 193).\<close>

definition caption_try ::
  "py_runtime \<Rightarrow> vision_model \<Rightarrow> nat \<Rightarrow> json \<Rightarrow> json \<Rightarrow> json \<Rightarrow> json \<Rightarrow> json \<Rightarrow> response \<times> nat" where
  "caption_try py vis request_counter req_id image_path position image_index page_number =
     (case describe vis image_path of
        Inl e \<Rightarrow> (except_clauses req_id e, request_counter)
      | Inr decoded \<Rightarrow>
          (let description = strip decoded in
           case format_position py position image_index page_number of
             Inl e \<Rightarrow> (except_clauses req_id e, request_counter)
           | Inr position_prefix \<Rightarrow>
               ([(''type'', JStr ''caption''), (''id'', req_id),
                 (''caption'', JStr (position_prefix @ '': '' @ description))],
                request_counter + 1)))"

text \<open>
  \<^verbatim>\<open>caption(request)\<close>: the context fields are read (lines 106 to 108) before the image
  path is validated.
\<close>

definition caption ::
  "py_runtime \<Rightarrow> vision_model \<Rightarrow> nat \<Rightarrow> json \<Rightarrow> exc + response \<times> nat" where
  "caption py vis request_counter request =
     bind_exc (py_get request ''id'' (JStr (''req_'' @ str_nat request_counter))) (\<lambda>req_id.
     bind_exc (py_get request ''image_path'' JNull) (\<lambda>image_path.
     bind_exc (py_get request ''context'' (JObj [])) (\<lambda>context.
     bind_exc (py_get context ''page_number'' JNull) (\<lambda>page_number.
     bind_exc (py_get context ''position'' (JStr ''middle'')) (\<lambda>position.
     bind_exc (py_get context ''image_index'' (JInt 0)) (\<lambda>image_index.
     if \<not> truthy image_path
     then Inr (error_response req_id ''INVALID_REQUEST'' ''image_path is required'', request_counter)
     else
     bind_exc (os_path_exists py image_path) (\<lambda>found.
     if \<not> found
     then Inr (error_response req_id ''IMAGE_NOT_FOUND''
                 (''Image not found: '' @ py_str py image_path), request_counter)
     else
     Inr (caption_try py vis request_counter req_id image_path
            position image_index page_number))))))))"

section \<open>The main loop and \<^verbatim>\<open>main\<close>\<close>

text \<open>How the \<^verbatim>\<open>for line in sys.stdin\<close> loop ends, and how \<^verbatim>\<open>main\<close> ends.\<close>

datatype ending = Exhausted | Break | Uncaught exc

datatype outcome = Returned nat | Raised exc

definition followed_by :: "event list \<Rightarrow> event list \<times> ending \<Rightarrow> event list \<times> ending" where
  "followed_by evs r = (evs @ fst r, snd r)"

text \<open>
  The loop of \<^verbatim>\<open>main\<close> (lines 153 to 175 of the TTS bridge, 209 to 231 of the vision
  bridge). The two loops are the same text but for the request type they handle
  (\<^verbatim>\<open>"generate"\<close>, \<^verbatim>\<open>"caption"\<close>) and the handler they call, which are the parameters
  \<open>handled\<close> and \<open>handler\<close>. The handler takes and returns the global \<^verbatim>\<open>request_counter\<close>.
  Nothing in the loop catches what \<^verbatim>\<open>request.get\<close> or the handler raises, nor an
  exception of \<^verbatim>\<open>json.loads\<close> that is not a \<^verbatim>\<open>JSONDecodeError\<close>.
\<close>

fun main_loop ::
  "py_runtime \<Rightarrow> string \<Rightarrow> (nat \<Rightarrow> json \<Rightarrow> exc + response \<times> nat) \<Rightarrow> nat \<Rightarrow> string list
     \<Rightarrow> event list \<times> ending" where
  "main_loop py handled handler request_counter [] = ([], Exhausted)"
| "main_loop py handled handler request_counter (raw # rest) =
     (let line = strip raw in
      if line = [] then followed_by [Read raw] (main_loop py handled handler request_counter rest)
      else
        (case json_loads py line of
           Inl e \<Rightarrow>
             if exc_class_of e = JSONDecodeError
             then followed_by
                    [Read raw, Send (error_no_id ''INVALID_REQUEST'' (''Invalid JSON: '' @ exc_str e))]
                    (main_loop py handled handler request_counter rest)
             else ([Read raw], Uncaught e)
         | Inr request \<Rightarrow>
             (case py_get request ''type'' JNull of
                Inl e \<Rightarrow> ([Read raw], Uncaught e)
              | Inr req_type \<Rightarrow>
                  if req_type = JStr ''shutdown'' then ([Read raw], Break)
                  else if req_type = JStr handled then
                    (case handler request_counter request of
                       Inl e \<Rightarrow> ([Read raw], Uncaught e)
                     | Inr (response, counter') \<Rightarrow>
                         followed_by [Read raw, Send response]
                           (main_loop py handled handler counter' rest))
                  else followed_by
                         [Read raw, Send (error_no_id ''INVALID_REQUEST''
                            (''Unknown request type: '' @ py_str py req_type))]
                         (main_loop py handled handler request_counter rest))))"

text \<open>
  \<^verbatim>\<open>main\<close> of the TTS bridge: the trace and how the function ends. \<^verbatim>\<open>sys.exit(main())\<close>
  makes the returned number the exit code; an exception that leaves \<^verbatim>\<open>main\<close> ends the
  process with a traceback and exit code 1, and skips the cleanup of lines 177 to 180.
\<close>

definition init_error :: "exc \<Rightarrow> response" where
  "init_error e = error_response (JStr ''init'') ''ENGINE_ERROR'' (''Failed to load model: '' @ exc_str e)"

definition tts_main :: "py_runtime \<Rightarrow> tts_model \<Rightarrow> string list \<Rightarrow> event list \<times> outcome" where
  "tts_main py tts stdin =
     (let temp_dir = mkdtemp tts in
      case tts_load tts of
        Some e \<Rightarrow> ([Mkdtemp temp_dir, Send (init_error e)], Returned 1)
      | None \<Rightarrow>
          (let run = main_loop py ''generate'' (generate py tts temp_dir) 0 stdin in
           case snd run of
             Uncaught e \<Rightarrow> ([Mkdtemp temp_dir, Send ready] @ fst run, Raised e)
           | Exhausted \<Rightarrow> ([Mkdtemp temp_dir, Send ready] @ fst run @ [Rmtree temp_dir], Returned 0)
           | Break \<Rightarrow> ([Mkdtemp temp_dir, Send ready] @ fst run @ [Rmtree temp_dir], Returned 0)))"

text \<open>\<^verbatim>\<open>main\<close> of the vision bridge, which creates no temporary directory.\<close>

definition vision_main :: "py_runtime \<Rightarrow> vision_model \<Rightarrow> string list \<Rightarrow> event list \<times> outcome" where
  "vision_main py vis stdin =
     (case vis_load vis of
        Some e \<Rightarrow> ([Send (init_error e)], Returned 1)
      | None \<Rightarrow>
          (let run = main_loop py ''caption'' (caption py vis) 0 stdin in
           case snd run of
             Uncaught e \<Rightarrow> (Send ready # fst run, Raised e)
           | Exhausted \<Rightarrow> (Send ready # fst run, Returned 0)
           | Break \<Rightarrow> (Send ready # fst run, Returned 0)))"

text \<open>The projections of a trace that the claims speak of.\<close>

fun sends :: "event list \<Rightarrow> response list" where
  "sends [] = []"
| "sends (Send r # evs) = r # sends evs"
| "sends (ev # evs) = sends evs"

fun reads :: "event list \<Rightarrow> string list" where
  "reads [] = []"
| "reads (Read l # evs) = l # reads evs"
| "reads (ev # evs) = reads evs"

fun mkdtemps :: "event list \<Rightarrow> string list" where
  "mkdtemps [] = []"
| "mkdtemps (Mkdtemp d # evs) = d # mkdtemps evs"
| "mkdtemps (ev # evs) = mkdtemps evs"

fun rmtrees :: "event list \<Rightarrow> string list" where
  "rmtrees [] = []"
| "rmtrees (Rmtree d # evs) = d # rmtrees evs"
| "rmtrees (ev # evs) = rmtrees evs"

section \<open>A sample runtime and sample models\<close>

text \<open>
  A concrete runtime and two concrete models, on which the definitions above are run.
  \<open>sample_lines\<close> lists a few input lines (after \<^verbatim>\<open>strip\<close>) with what \<^verbatim>\<open>json.loads\<close> returns on
  each; the sample decoder knows these lines only. The sample file system holds one image
  and one voice sample; the sample TTS model fails on the texts \<^verbatim>\<open>oom\<close> and \<^verbatim>\<open>cuda\<close> and
  returns two seconds of audio on any other; the sample vision model describes every
  image with the same sentence.
\<close>

definition sample_lines :: "(string \<times> (exc + json)) list" where
  \<open>sample_lines =
     [(''5'', Inr (JInt 5)),
      (''{"type":'', Inl (Exc JSONDecodeError ''Expecting value: line 1 column 9 (char 8)'')),
      (''{"type": "shutdown"}'', Inr (JObj [(''type'', JStr ''shutdown'')])),
      (''{"type":"ping","id":"r3"}'',
         Inr (JObj [(''type'', JStr ''ping''), (''id'', JStr ''r3'')])),
      (''{"type":"generate","id":"r1","text":""}'',
         Inr (JObj [(''type'', JStr ''generate''), (''id'', JStr ''r1''), (''text'', JStr [])])),
      (''{"type":"generate","id":"r4","text":"Hello"}'',
         Inr (JObj [(''type'', JStr ''generate''), (''id'', JStr ''r4''), (''text'', JStr ''Hello'')])),
      (''{"type":"generate","id":"r5","text":5}'',
         Inr (JObj [(''type'', JStr ''generate''), (''id'', JStr ''r5''), (''text'', JInt 5)])),
      (''{"type":"generate","id":"r7","text":"oom"}'',
         Inr (JObj [(''type'', JStr ''generate''), (''id'', JStr ''r7''), (''text'', JStr ''oom'')])),
      (''{"type":"caption","id":"r2","image_path":"/missing.png"}'',
         Inr (JObj [(''type'', JStr ''caption''), (''id'', JStr ''r2''),
                    (''image_path'', JStr ''/missing.png'')])),
      (''{"type":"caption","id":"r6","image_path":"/img.png","context":{"page_number":87,"image_index":2}}'',
         Inr (JObj [(''type'', JStr ''caption''), (''id'', JStr ''r6''),
                    (''image_path'', JStr ''/img.png''),
                    (''context'', JObj [(''page_number'', JInt 87), (''image_index'', JInt 2)])])),
      (''{"type":"generate","id":"r8","text":"Hello","options":null}'',
         Inr (JObj [(''type'', JStr ''generate''), (''id'', JStr ''r8''), (''text'', JStr ''Hello''),
                    (''options'', JNull)])),
      (''{"type":"caption","id":"r2","context":null}'',
         Inr (JObj [(''type'', JStr ''caption''), (''id'', JStr ''r2''), (''context'', JNull)]))]\<close>

definition sample_loads :: "string \<Rightarrow> exc + json" where
  "sample_loads s =
     (case map_of sample_lines s of
        Some r \<Rightarrow> r
      | None \<Rightarrow> Inl (Exc JSONDecodeError ''Expecting value: line 1 column 1 (char 0)''))"

definition sample_py :: py_runtime where
  "sample_py =
     \<lparr>json_loads = sample_loads,
      path_exists = (\<lambda>p. p = ''/img.png'' \<or> p = ''/voice.wav''),
      fd_exists = (\<lambda>n. 0 \<le> n \<and> n \<le> 2),
      float_str = (\<lambda>f. ''0.0''),
      float_round = (\<lambda>q. q),
      round3 = (\<lambda>q. q),
      container_repr = (\<lambda>v. ''[]'')\<rparr>"

definition sample_tts :: tts_model where
  "sample_tts =
     \<lparr>mkdtemp = ''/tmp/actual_reader_tts_a'',
      tts_load = None,
      sample_rate = 24000,
      model_generate = (\<lambda>text voice exaggeration cfg_weight temperature.
         if text = JStr ''oom'' then Inl (Exc MemoryError ''out of memory'')
         else if text = JStr ''cuda'' then Inl (Exc RuntimeError ''CUDA Out Of Memory'')
         else Inr 48000),
      ta_save = (\<lambda>path frames. None)\<rparr>"

definition sample_vis :: vision_model where
  "sample_vis =
     \<lparr>vis_load = None,
      describe = (\<lambda>image_path. Inr ''A chart. '')\<rparr>"

definition load_failure :: exc where
  "load_failure = Exc ImportError ''No module named torch''"

definition failing_tts :: tts_model where
  "failing_tts = sample_tts\<lparr>tts_load := Some load_failure\<rparr>"

definition failing_vis :: vision_model where
  "failing_vis = sample_vis\<lparr>vis_load := Some load_failure\<rparr>"

text \<open>A line as \<^verbatim>\<open>sys.stdin\<close> yields it: the text and the newline.\<close>

definition nl :: "string \<Rightarrow> string" where
  "nl s = s @ [CHR 0x0A]"

section \<open>Facts about the main loop\<close>

lemma fst_followed_by [simp]: "fst (followed_by evs r) = evs @ fst r"
  by (simp add: followed_by_def)

lemma snd_followed_by [simp]: "snd (followed_by evs r) = snd r"
  by (simp add: followed_by_def)

lemma sends_append [simp]: "sends (xs @ ys) = sends xs @ sends ys"
  by (induction xs rule: sends.induct) auto

lemma reads_append [simp]: "reads (xs @ ys) = reads xs @ reads ys"
  by (induction xs rule: reads.induct) auto

lemma mkdtemps_append [simp]: "mkdtemps (xs @ ys) = mkdtemps xs @ mkdtemps ys"
  by (induction xs rule: mkdtemps.induct) auto

lemma rmtrees_append [simp]: "rmtrees (xs @ ys) = rmtrees xs @ rmtrees ys"
  by (induction xs rule: rmtrees.induct) auto

text \<open>The loop only reads and sends.\<close>

lemma main_loop_mkdtemps: "mkdtemps (fst (main_loop py handled handler c ls)) = []"
  by (induction ls arbitrary: c) (auto simp: Let_def split: sum.splits prod.splits)

lemma main_loop_rmtrees: "rmtrees (fst (main_loop py handled handler c ls)) = []"
  by (induction ls arbitrary: c) (auto simp: Let_def split: sum.splits prod.splits)

text \<open>Each step of the loop, by the case the line falls in.\<close>

lemma loop_blank:
  "strip raw = [] \<Longrightarrow>
   main_loop py handled handler c (raw # rest) = followed_by [Read raw] (main_loop py handled handler c rest)"
  by simp

lemma loop_shutdown:
  "strip raw \<noteq> [] \<Longrightarrow> json_loads py (strip raw) = Inr (JObj kvs) \<Longrightarrow>
   map_of kvs ''type'' = Some (JStr ''shutdown'') \<Longrightarrow>
   main_loop py handled handler c (raw # rest) = ([Read raw], Break)"
  by (simp add: dict_get_def)

lemma loop_handled:
  "strip raw \<noteq> [] \<Longrightarrow> json_loads py (strip raw) = Inr (JObj kvs) \<Longrightarrow>
   map_of kvs ''type'' = Some (JStr handled) \<Longrightarrow> handled \<noteq> ''shutdown'' \<Longrightarrow>
   handler c (JObj kvs) = Inr (r, c') \<Longrightarrow>
   main_loop py handled handler c (raw # rest)
     = followed_by [Read raw, Send r] (main_loop py handled handler c' rest)"
  by (simp add: dict_get_def)

lemma loop_handler_raises:
  "strip raw \<noteq> [] \<Longrightarrow> json_loads py (strip raw) = Inr (JObj kvs) \<Longrightarrow>
   map_of kvs ''type'' = Some (JStr handled) \<Longrightarrow> handled \<noteq> ''shutdown'' \<Longrightarrow>
   handler c (JObj kvs) = Inl e \<Longrightarrow>
   main_loop py handled handler c (raw # rest) = ([Read raw], Uncaught e)"
  by (simp add: dict_get_def)

lemma loop_unknown:
  "strip raw \<noteq> [] \<Longrightarrow> json_loads py (strip raw) = Inr (JObj kvs) \<Longrightarrow>
   dict_get kvs ''type'' JNull = t \<Longrightarrow> t \<noteq> JStr ''shutdown'' \<Longrightarrow> t \<noteq> JStr handled \<Longrightarrow>
   main_loop py handled handler c (raw # rest)
     = followed_by [Read raw, Send (error_no_id ''INVALID_REQUEST'' (''Unknown request type: '' @ py_str py t))]
         (main_loop py handled handler c rest)"
  by simp

text \<open>A shutdown line after a run that exhausts its input.\<close>

lemma loop_then_shutdown:
  assumes "strip raw \<noteq> []" "json_loads py (strip raw) = Inr (JObj kvs)"
    "map_of kvs ''type'' = Some (JStr ''shutdown'')"
  shows "snd (main_loop py handled handler c pre) = Exhausted \<Longrightarrow>
   main_loop py handled handler c (pre @ raw # rest)
     = (fst (main_loop py handled handler c pre) @ [Read raw], Break)"
proof (induction pre arbitrary: c)
  case Nil
  show ?case using assms by (simp add: dict_get_def)
next
  case (Cons l pre)
  then show ?case
    by (auto simp: Let_def followed_by_def split: sum.splits prod.splits if_splits)
qed

section \<open>What the handlers send\<close>

lemma bind_exc_Inr: "bind_exc m f = Inr y \<longleftrightarrow> (\<exists>x. m = Inr x \<and> f x = Inr y)"
  by (cases m) (simp_all add: bind_exc_def)

lemma bind_exc_simps [simp]:
  "bind_exc (Inr x) f = f x" "bind_exc (Inl e) f = Inl e"
  by (simp_all add: bind_exc_def)

lemma except_clauses_length: "length (except_clauses req_id e) = 4"
  by (simp add: except_clauses_def error_response_def)

lemma generate_try_length:
  "generate_try py tts tmp c req_id text voice ex cfg temp = (r, c') \<Longrightarrow> length r = 4"
  by (auto simp: generate_try_def except_clauses_length Let_def split: sum.splits option.splits if_splits)

lemma generate_length: "generate py tts tmp c req = Inr (r, c') \<Longrightarrow> length r = 4"
  by (auto simp: generate_def bind_exc_Inr error_response_def split: if_splits
      dest: generate_try_length)

lemma caption_try_length:
  "caption_try py vis c req_id image_path position image_index page_number = (r, c')
   \<Longrightarrow> length r = 3 \<or> length r = 4"
  by (auto simp: caption_try_def except_clauses_length Let_def split: sum.splits)

lemma caption_length: "caption py vis c req = Inr (r, c') \<Longrightarrow> length r = 3 \<or> length r = 4"
  by (auto simp: caption_def bind_exc_Inr error_response_def split: if_splits
      dest: caption_try_length)

lemma generate_not_ready: "generate py tts tmp c req = Inr (r, c') \<Longrightarrow> r \<noteq> ready"
  by (auto dest: generate_length simp: ready_def)

lemma caption_not_ready: "caption py vis c req = Inr (r, c') \<Longrightarrow> r \<noteq> ready"
  by (auto dest: caption_length simp: ready_def)

lemma main_loop_no_ready:
  assumes "\<And>c req r c'. handler c req = Inr (r, c') \<Longrightarrow> r \<noteq> ready"
  shows "Send ready \<notin> set (fst (main_loop py handled handler c ls))"
proof (induction ls arbitrary: c)
  case Nil
  show ?case by simp
next
  case (Cons raw rest)
  show ?case using Cons.IH assms
    by (auto simp: Let_def error_no_id_def ready_def split: sum.splits prod.splits) blast
qed

section \<open>Runs of the sample models\<close>

lemma strip_nl_shutdown: \<open>strip (nl ''{"type": "shutdown"}'') = ''{"type": "shutdown"}''\<close>
  by (simp add: strip_def nl_def is_space_def)

lemma sample_tts_shutdown_run:
  \<open>tts_main sample_py sample_tts [nl ''{"type": "shutdown"}'']
   = ([Mkdtemp ''/tmp/actual_reader_tts_a'', Send ready, Read (nl ''{"type": "shutdown"}''),
       Rmtree ''/tmp/actual_reader_tts_a''], Returned 0)\<close>
  by (simp add: tts_main_def sample_tts_def sample_py_def sample_loads_def sample_lines_def
      strip_nl_shutdown dict_get_def Let_def)

lemma sample_vis_shutdown_run:
  \<open>vision_main sample_py sample_vis [nl ''{"type": "shutdown"}'']
   = ([Send ready, Read (nl ''{"type": "shutdown"}'')], Returned 0)\<close>
  by (simp add: vision_main_def sample_vis_def sample_py_def sample_loads_def sample_lines_def
      strip_nl_shutdown dict_get_def Let_def)

lemma strip_nl_bad: \<open>strip (nl ''{"type":'') = ''{"type":''\<close>
  by (simp add: strip_def nl_def is_space_def)

lemma sample_bad_line_run:
  \<open>main_loop sample_py handled handler c [nl ''{"type":'']
   = ([Read (nl ''{"type":''),
       Send (error_no_id ''INVALID_REQUEST''
               ''Invalid JSON: Expecting value: line 1 column 9 (char 8)'')], Exhausted)\<close>
  by (simp add: sample_py_def sample_loads_def sample_lines_def strip_nl_bad followed_by_def)

section \<open>Runs of the sample lines\<close>

lemma strip_nl_ping:
  \<open>strip (nl ''{"type":"ping","id":"r3"}'') = ''{"type":"ping","id":"r3"}''\<close>
  by (simp add: strip_def nl_def is_space_def)

lemma sample_loads_ping:
  \<open>json_loads sample_py ''{"type":"ping","id":"r3"}''
     = Inr (JObj [(''type'', JStr ''ping''), (''id'', JStr ''r3'')])\<close>
  by (simp add: sample_py_def sample_loads_def sample_lines_def)

lemma sample_ping_run:
  \<open>main_loop sample_py handled handler c [nl ''{"type":"ping","id":"r3"}'']
     = ([Read (nl ''{"type":"ping","id":"r3"}''),
         Send (error_no_id ''INVALID_REQUEST'' ''Unknown request type: ping'')], Exhausted)\<close>
  if "handled = ''generate'' \<or> handled = ''caption''"
  using that
  by (auto simp: strip_nl_ping sample_loads_ping dict_get_def followed_by_def)

lemma strip_nl_empty_text:
  \<open>strip (nl ''{"type":"generate","id":"r1","text":""}'')
   = ''{"type":"generate","id":"r1","text":""}''\<close>
  by (simp add: strip_def nl_def is_space_def)

lemma sample_loads_empty_text:
  \<open>json_loads sample_py ''{"type":"generate","id":"r1","text":""}''
     = Inr (JObj [(''type'', JStr ''generate''), (''id'', JStr ''r1''), (''text'', JStr [])])\<close>
  by (simp add: sample_py_def sample_loads_def sample_lines_def)

lemma sample_generate_empty_text:
  "generate sample_py sample_tts temp_dir 0
     (JObj [(''type'', JStr ''generate''), (''id'', JStr ''r1''), (''text'', JStr [])])
   = Inr (error_response (JStr ''r1'') ''INVALID_TEXT'' ''Text is empty'', 0)"
  by (simp add: generate_def dict_get_def)

lemma sample_empty_text_run:
  \<open>main_loop sample_py ''generate'' (generate sample_py sample_tts temp_dir) 0
     [nl ''{"type":"generate","id":"r1","text":""}'']
   = ([Read (nl ''{"type":"generate","id":"r1","text":""}''),
       Send (error_response (JStr ''r1'') ''INVALID_TEXT'' ''Text is empty'')], Exhausted)\<close>
  by (simp add: strip_nl_empty_text sample_loads_empty_text sample_generate_empty_text
      dict_get_def followed_by_def)




lemma pad4_one: "pad4 (str_nat (Suc 0)) = ''0001''"
  by code_simp

lemma sample_generate_hello:
  "generate sample_py sample_tts ''/tmp/actual_reader_tts_a'' 0
     (JObj [(''type'', JStr ''generate''), (''id'', JStr ''r4''), (''text'', JStr ''Hello'')])
   = Inr ([(''type'', JStr ''audio''), (''id'', JStr ''r4''),
           (''path'', JStr ''/tmp/actual_reader_tts_a/tts_0001.wav''),
           (''duration'', JFloat (Finite 2))], 1)"
  by (simp add: generate_def dict_get_def voice_missing_def generate_try_def sample_tts_def
      sample_py_def pad4_one os_path_join_def)

lemma strip_nl_hello:
  \<open>strip (nl ''{"type":"generate","id":"r4","text":"Hello"}'')
   = ''{"type":"generate","id":"r4","text":"Hello"}''\<close>
  by (simp add: strip_def nl_def is_space_def)

lemma sample_loads_hello:
  \<open>json_loads sample_py ''{"type":"generate","id":"r4","text":"Hello"}''
     = Inr (JObj [(''type'', JStr ''generate''), (''id'', JStr ''r4''), (''text'', JStr ''Hello'')])\<close>
  by (simp add: sample_py_def sample_loads_def sample_lines_def)

lemma sample_hello_run:
  \<open>main_loop sample_py ''generate'' (generate sample_py sample_tts ''/tmp/actual_reader_tts_a'') 0
     [nl ''{"type":"generate","id":"r4","text":"Hello"}'']
   = ([Read (nl ''{"type":"generate","id":"r4","text":"Hello"}''),
       Send [(''type'', JStr ''audio''), (''id'', JStr ''r4''),
             (''path'', JStr ''/tmp/actual_reader_tts_a/tts_0001.wav''),
             (''duration'', JFloat (Finite 2))]],
      Exhausted)\<close>
  by (simp add: strip_nl_hello sample_loads_hello sample_generate_hello dict_get_def
      followed_by_def)


section \<open>Initialization failure\<close>

text \<open>
  Claim C7. If the construction of the model fails during initialization
  (\<^verbatim>\<open>load_model()\<close> raises), the process sends exactly one response, the error with id
  \<^verbatim>\<open>"init"\<close> and code \<^verbatim>\<open>ENGINE_ERROR\<close>; it never sends the ready response, reads no line of
  its input, and \<^verbatim>\<open>main\<close> returns 1, the exit code of the process. This holds for both
  bridges, whatever the input holds.
\<close>

theorem init_failure_is_fatal:
  assumes "tts_load tts = Some e" and "vis_load vis = Some e'"
  shows "sends (fst (tts_main py tts stdin)) = [init_error e]
       \<and> reads (fst (tts_main py tts stdin)) = []
       \<and> snd (tts_main py tts stdin) = Returned 1
       \<and> sends (fst (vision_main py vis stdin)) = [init_error e']
       \<and> reads (fst (vision_main py vis stdin)) = []
       \<and> snd (vision_main py vis stdin) = Returned 1
       \<and> map_of (init_error e) ''type'' = Some (JStr ''error'')
       \<and> map_of (init_error e) ''id'' = Some (JStr ''init'')
       \<and> map_of (init_error e) ''code'' = Some (JStr ''ENGINE_ERROR'')
       \<and> init_error e \<noteq> ready \<and> init_error e' \<noteq> ready"
  using assms
  by (simp add: tts_main_def vision_main_def init_error_def error_response_def ready_def)

theorem init_failure_is_fatal_witness:
  "tts_load failing_tts = Some load_failure \<and> vis_load failing_vis = Some load_failure
   \<and> tts_main sample_py failing_tts [nl ''{\"type\": \"shutdown\"}'']
       = ([Mkdtemp ''/tmp/actual_reader_tts_a'', Send (init_error load_failure)], Returned 1)
   \<and> sends (fst (vision_main sample_py failing_vis [nl ''{\"type\": \"shutdown\"}'']))
       = [init_error load_failure]
   \<and> snd (vision_main sample_py failing_vis [nl ''{\"type\": \"shutdown\"}'']) = Returned 1"
  using init_failure_is_fatal [of failing_tts load_failure failing_vis load_failure sample_py
      "[nl ''{\"type\": \"shutdown\"}'']"]
  by (simp add: failing_tts_def failing_vis_def sample_tts_def sample_vis_def tts_main_def
      vision_main_def)

section \<open>The ready response\<close>

text \<open>
  Claim C8. On every successful startup the first line sent is exactly the object
  \<^verbatim>\<open>{"type": "ready"}\<close>, with no other field; it is sent once, and before any line of the
  input is taken: in the trace of \<^verbatim>\<open>main\<close> it comes first (after the creation of the
  temporary directory in the TTS bridge), every read comes after it, and no later event
  sends it again.
\<close>

theorem ready_first_and_once:
  assumes "tts_load tts = None" and "vis_load vis = None"
  shows "(\<exists>rest. fst (tts_main py tts stdin)
              = Mkdtemp (mkdtemp tts) # Send [(''type'', JStr ''ready'')] # rest
            \<and> Send ready \<notin> set rest
            \<and> sends (fst (tts_main py tts stdin)) = ready # sends rest
            \<and> ready \<notin> set (sends rest))
       \<and> (\<exists>rest. fst (vision_main py vis stdin) = Send [(''type'', JStr ''ready'')] # rest
            \<and> Send ready \<notin> set rest
            \<and> sends (fst (vision_main py vis stdin)) = ready # sends rest
            \<and> ready \<notin> set (sends rest))"
proof -
  have in_sends: "r \<in> set (sends evs) \<longleftrightarrow> Send r \<in> set evs" for r evs
    by (induction evs rule: sends.induct) auto
  let ?t = "main_loop py ''generate'' (generate py tts (mkdtemp tts)) 0 stdin"
  let ?v = "main_loop py ''caption'' (caption py vis) 0 stdin"
  have t: "Send ready \<notin> set (fst ?t)"
    by (rule main_loop_no_ready) (rule generate_not_ready)
  have v: "Send ready \<notin> set (fst ?v)"
    by (rule main_loop_no_ready) (rule caption_not_ready)
  have tts: "\<exists>rest. fst (tts_main py tts stdin)
              = Mkdtemp (mkdtemp tts) # Send [(''type'', JStr ''ready'')] # rest
            \<and> Send ready \<notin> set rest
            \<and> sends (fst (tts_main py tts stdin)) = ready # sends rest
            \<and> ready \<notin> set (sends rest)"
  proof (cases "snd ?t")
    case (Uncaught e)
    with assms t show ?thesis
      by (intro exI [of _ "fst ?t"]) (simp add: tts_main_def Let_def ready_def in_sends)
  next
    case Exhausted
    with assms t show ?thesis
      by (intro exI [of _ "fst ?t @ [Rmtree (mkdtemp tts)]"])
         (simp add: tts_main_def Let_def ready_def in_sends)
  next
    case Break
    with assms t show ?thesis
      by (intro exI [of _ "fst ?t @ [Rmtree (mkdtemp tts)]"])
         (simp add: tts_main_def Let_def ready_def in_sends)
  qed
  have vis: "\<exists>rest. fst (vision_main py vis stdin) = Send [(''type'', JStr ''ready'')] # rest
            \<and> Send ready \<notin> set rest
            \<and> sends (fst (vision_main py vis stdin)) = ready # sends rest
            \<and> ready \<notin> set (sends rest)"
    using assms v
    by (intro exI [of _ "fst ?v"])
       (simp add: vision_main_def Let_def ready_def in_sends split: ending.split)
  from tts vis show ?thesis by (rule conjI)
qed

theorem ready_first_and_once_witness:
  \<open>tts_load sample_tts = None \<and> vis_load sample_vis = None
   \<and> (\<exists>rest. fst (tts_main sample_py sample_tts [nl ''{"type": "shutdown"}''])
              = Mkdtemp (mkdtemp sample_tts) # Send [(''type'', JStr ''ready'')] # rest
            \<and> Send ready \<notin> set rest)
   \<and> sends (fst (tts_main sample_py sample_tts [nl ''{"type": "shutdown"}''])) = [ready]
   \<and> sends (fst (vision_main sample_py sample_vis [nl ''{"type": "shutdown"}''])) = [ready]\<close>
proof -
  have a: "tts_load sample_tts = None" by (simp add: sample_tts_def)
  have b: "vis_load sample_vis = None" by (simp add: sample_vis_def)
  from ready_first_and_once [OF a b, of sample_py \<open>[nl ''{"type": "shutdown"}'']\<close>]
  have "\<exists>rest. fst (tts_main sample_py sample_tts [nl ''{\"type\": \"shutdown\"}''])
              = Mkdtemp (mkdtemp sample_tts) # Send [(''type'', JStr ''ready'')] # rest
            \<and> Send ready \<notin> set rest"
    by blast
  with a b show ?thesis
    by (simp add: sample_tts_shutdown_run sample_vis_shutdown_run)
qed

section \<open>Shutdown and the end of the input\<close>

text \<open>
  Claim C9. When a line whose decoded type is \<^verbatim>\<open>shutdown\<close> is read, no response is sent for
  it and no further line is read: after any lines \<open>pre\<close> that the loop has handled, the
  loop ends on that line with the trace of \<open>pre\<close> and the one read, whatever lines \<open>rest\<close>
  follow. The end of the input without a shutdown ends the loop in the same way: \<^verbatim>\<open>main\<close>
  does after the lines \<open>pre\<close> alone what it does after \<open>pre\<close> and a shutdown line, the read
  of that line apart, and returns 0 in both bridges.
\<close>

theorem shutdown_and_end_of_input:
  assumes "strip raw \<noteq> []" and "json_loads py (strip raw) = Inr (JObj kvs)"
    and "map_of kvs ''type'' = Some (JStr ''shutdown'')"
  shows "(snd (main_loop py handled handler c pre) = Exhausted \<longrightarrow>
            main_loop py handled handler c (pre @ raw # rest)
              = (fst (main_loop py handled handler c pre) @ [Read raw], Break)
          \<and> sends (fst (main_loop py handled handler c (pre @ raw # rest)))
              = sends (fst (main_loop py handled handler c pre))
          \<and> reads (fst (main_loop py handled handler c (pre @ raw # rest)))
              = reads (fst (main_loop py handled handler c pre)) @ [raw])
       \<and> main_loop py handled handler c [] = ([], Exhausted)
       \<and> (tts_load tts = None
            \<and> snd (main_loop py ''generate'' (generate py tts (mkdtemp tts)) 0 pre) = Exhausted \<longrightarrow>
            tts_main py tts (pre @ raw # rest)
              = (Mkdtemp (mkdtemp tts) # Send ready
                   # fst (main_loop py ''generate'' (generate py tts (mkdtemp tts)) 0 pre)
                   @ [Read raw, Rmtree (mkdtemp tts)], Returned 0)
          \<and> tts_main py tts pre
              = (Mkdtemp (mkdtemp tts) # Send ready
                   # fst (main_loop py ''generate'' (generate py tts (mkdtemp tts)) 0 pre)
                   @ [Rmtree (mkdtemp tts)], Returned 0))
       \<and> (vis_load vis = None
            \<and> snd (main_loop py ''caption'' (caption py vis) 0 pre) = Exhausted \<longrightarrow>
            vision_main py vis (pre @ raw # rest)
              = (Send ready # fst (main_loop py ''caption'' (caption py vis) 0 pre) @ [Read raw],
                 Returned 0)
          \<and> vision_main py vis pre
              = (Send ready # fst (main_loop py ''caption'' (caption py vis) 0 pre), Returned 0))"
proof -
  note step = loop_then_shutdown [OF assms]
  have loop: "snd (main_loop py handled handler c pre) = Exhausted \<longrightarrow>
            main_loop py handled handler c (pre @ raw # rest)
              = (fst (main_loop py handled handler c pre) @ [Read raw], Break)
          \<and> sends (fst (main_loop py handled handler c (pre @ raw # rest)))
              = sends (fst (main_loop py handled handler c pre))
          \<and> reads (fst (main_loop py handled handler c (pre @ raw # rest)))
              = reads (fst (main_loop py handled handler c pre)) @ [raw]"
    by (simp add: step)
  have tts: "tts_load tts = None
            \<and> snd (main_loop py ''generate'' (generate py tts (mkdtemp tts)) 0 pre) = Exhausted \<longrightarrow>
            tts_main py tts (pre @ raw # rest)
              = (Mkdtemp (mkdtemp tts) # Send ready
                   # fst (main_loop py ''generate'' (generate py tts (mkdtemp tts)) 0 pre)
                   @ [Read raw, Rmtree (mkdtemp tts)], Returned 0)
          \<and> tts_main py tts pre
              = (Mkdtemp (mkdtemp tts) # Send ready
                   # fst (main_loop py ''generate'' (generate py tts (mkdtemp tts)) 0 pre)
                   @ [Rmtree (mkdtemp tts)], Returned 0)"
    by (simp add: tts_main_def Let_def step)
  have vis: "vis_load vis = None
            \<and> snd (main_loop py ''caption'' (caption py vis) 0 pre) = Exhausted \<longrightarrow>
            vision_main py vis (pre @ raw # rest)
              = (Send ready # fst (main_loop py ''caption'' (caption py vis) 0 pre) @ [Read raw],
                 Returned 0)
          \<and> vision_main py vis pre
              = (Send ready # fst (main_loop py ''caption'' (caption py vis) 0 pre), Returned 0)"
    by (simp add: vision_main_def Let_def step)
  from loop tts vis show ?thesis by simp
qed

theorem shutdown_and_end_of_input_witness:
  \<open>strip (nl ''{"type": "shutdown"}'') \<noteq> []
   \<and> json_loads sample_py (strip (nl ''{"type": "shutdown"}''))
       = Inr (JObj [(''type'', JStr ''shutdown'')])
   \<and> map_of [(''type'', JStr ''shutdown'')] ''type'' = Some (JStr ''shutdown'')
   \<and> tts_load sample_tts = None
   \<and> tts_main sample_py sample_tts
        ([nl ''{"type":''] @ nl ''{"type": "shutdown"}'' # [nl ''5''])
       = ([Mkdtemp ''/tmp/actual_reader_tts_a'', Send ready, Read (nl ''{"type":''),
           Send (error_no_id ''INVALID_REQUEST''
                   ''Invalid JSON: Expecting value: line 1 column 9 (char 8)''),
           Read (nl ''{"type": "shutdown"}''), Rmtree ''/tmp/actual_reader_tts_a''], Returned 0)
   \<and> tts_main sample_py sample_tts [nl ''{"type":'']
       = ([Mkdtemp ''/tmp/actual_reader_tts_a'', Send ready, Read (nl ''{"type":''),
           Send (error_no_id ''INVALID_REQUEST''
                   ''Invalid JSON: Expecting value: line 1 column 9 (char 8)''),
           Rmtree ''/tmp/actual_reader_tts_a''], Returned 0)\<close>
proof -
  have a: \<open>strip (nl ''{"type": "shutdown"}'') \<noteq> []\<close>
    by (simp add: strip_nl_shutdown)
  have b: \<open>json_loads sample_py (strip (nl ''{"type": "shutdown"}''))
       = Inr (JObj [(''type'', JStr ''shutdown'')])\<close>
    by (simp add: strip_nl_shutdown sample_py_def sample_loads_def sample_lines_def)
  have c: "map_of [(''type'', JStr ''shutdown'')] ''type'' = Some (JStr ''shutdown'')"
    by simp
  have d: "tts_load sample_tts = None" "mkdtemp sample_tts = ''/tmp/actual_reader_tts_a''"
    by (simp_all add: sample_tts_def)
  from shutdown_and_end_of_input [OF a b c, of "''generate''" "generate sample_py sample_tts (mkdtemp sample_tts)" 0
      \<open>[nl ''{"type":'']\<close> \<open>[nl ''5'']\<close> sample_tts sample_vis] a b c d
  show ?thesis
    by (simp del: main_loop.simps add: sample_bad_line_run)
qed

section \<open>The temporary directory\<close>

text \<open>
  Claim C3 says that either bridge acquires a temporary directory once and releases it
  once at termination, also when initialization fails. It does not hold as stated: the
  vision bridge creates no temporary directory at all, and the TTS bridge returns from a
  failed initialization without removing the one it created.
\<close>

theorem temp_dir_counterexample:
  \<open>mkdtemps (fst (vision_main sample_py sample_vis [nl ''{"type": "shutdown"}''])) = []
   \<and> snd (vision_main sample_py sample_vis [nl ''{"type": "shutdown"}'']) = Returned 0
   \<and> mkdtemps (fst (tts_main sample_py failing_tts [nl ''{"type": "shutdown"}'']))
       = [''/tmp/actual_reader_tts_a'']
   \<and> rmtrees (fst (tts_main sample_py failing_tts [nl ''{"type": "shutdown"}''])) = []\<close>
  by (simp add: sample_vis_shutdown_run tts_main_def failing_tts_def sample_tts_def)

text \<open>
  Claim C3, amended. In every execution of the TTS bridge a temporary directory is acquired
  exactly once, as the first action of \<^verbatim>\<open>main\<close>. When the model loads and the loop ends by a
  shutdown request or by the end of the input, the directory is removed exactly once, as
  the last action, after every read and every response, and \<^verbatim>\<open>main\<close> returns 0. The vision
  bridge acquires and removes no temporary directory.
\<close>

theorem tts_temp_dir_lifetime:
  "mkdtemps (fst (tts_main py tts stdin)) = [mkdtemp tts]
   \<and> (\<exists>rest. fst (tts_main py tts stdin) = Mkdtemp (mkdtemp tts) # rest \<and> mkdtemps rest = [])
   \<and> (tts_load tts = None
        \<and> (\<forall>e. snd (main_loop py ''generate'' (generate py tts (mkdtemp tts)) 0 stdin) \<noteq> Uncaught e)
        \<longrightarrow> (\<exists>serving. fst (tts_main py tts stdin)
                   = Mkdtemp (mkdtemp tts) # serving @ [Rmtree (mkdtemp tts)]
                 \<and> mkdtemps serving = [] \<and> rmtrees serving = []
                 \<and> sends serving = sends (fst (tts_main py tts stdin))
                 \<and> reads serving = reads (fst (tts_main py tts stdin)))
            \<and> rmtrees (fst (tts_main py tts stdin)) = [mkdtemp tts]
            \<and> snd (tts_main py tts stdin) = Returned 0)
   \<and> mkdtemps (fst (vision_main py vis stdin)) = []
   \<and> rmtrees (fst (vision_main py vis stdin)) = []"
proof -
  let ?run = "main_loop py ''generate'' (generate py tts (mkdtemp tts)) 0 stdin"
  have m: "mkdtemps (fst ?run) = []" and r: "rmtrees (fst ?run) = []"
    by (rule main_loop_mkdtemps, rule main_loop_rmtrees)
  have once: "mkdtemps (fst (tts_main py tts stdin)) = [mkdtemp tts]"
    using m by (simp add: tts_main_def Let_def split: option.split ending.split)
  have first: "\<exists>rest. fst (tts_main py tts stdin) = Mkdtemp (mkdtemp tts) # rest \<and> mkdtemps rest = []"
    using m by (simp add: tts_main_def Let_def split: option.split ending.split)
  have served: "tts_load tts = None \<and> (\<forall>e. snd ?run \<noteq> Uncaught e)
        \<longrightarrow> (\<exists>serving. fst (tts_main py tts stdin)
                   = Mkdtemp (mkdtemp tts) # serving @ [Rmtree (mkdtemp tts)]
                 \<and> mkdtemps serving = [] \<and> rmtrees serving = []
                 \<and> sends serving = sends (fst (tts_main py tts stdin))
                 \<and> reads serving = reads (fst (tts_main py tts stdin)))
            \<and> rmtrees (fst (tts_main py tts stdin)) = [mkdtemp tts]
            \<and> snd (tts_main py tts stdin) = Returned 0"
  proof (intro impI, elim conjE)
    assume l: "tts_load tts = None" and u: "\<forall>e. snd ?run \<noteq> Uncaught e"
    then have eq: "tts_main py tts stdin
        = (Mkdtemp (mkdtemp tts) # (Send ready # fst ?run) @ [Rmtree (mkdtemp tts)], Returned 0)"
      by (cases "snd ?run") (simp_all add: tts_main_def Let_def)
    have "\<exists>serving. fst (tts_main py tts stdin)
                   = Mkdtemp (mkdtemp tts) # serving @ [Rmtree (mkdtemp tts)]
                 \<and> mkdtemps serving = [] \<and> rmtrees serving = []
                 \<and> sends serving = sends (fst (tts_main py tts stdin))
                 \<and> reads serving = reads (fst (tts_main py tts stdin))"
      by (rule exI [of _ "Send ready # fst ?run"]) (simp add: eq m r)
    then show "(\<exists>serving. fst (tts_main py tts stdin)
                   = Mkdtemp (mkdtemp tts) # serving @ [Rmtree (mkdtemp tts)]
                 \<and> mkdtemps serving = [] \<and> rmtrees serving = []
                 \<and> sends serving = sends (fst (tts_main py tts stdin))
                 \<and> reads serving = reads (fst (tts_main py tts stdin)))
            \<and> rmtrees (fst (tts_main py tts stdin)) = [mkdtemp tts]
            \<and> snd (tts_main py tts stdin) = Returned 0"
      by (simp add: eq r)
  qed
  have vis: "mkdtemps (fst (vision_main py vis stdin)) = []
           \<and> rmtrees (fst (vision_main py vis stdin)) = []"
    using main_loop_mkdtemps [of py "''caption''" "caption py vis" 0 stdin]
      main_loop_rmtrees [of py "''caption''" "caption py vis" 0 stdin]
    by (simp add: vision_main_def Let_def init_error_def split: option.split ending.split)
  from once first served vis show ?thesis by blast
qed

theorem tts_temp_dir_lifetime_witness:
  \<open>tts_load sample_tts = None
   \<and> main_loop sample_py ''generate'' (generate sample_py sample_tts (mkdtemp sample_tts)) 0
        [nl ''{"type": "shutdown"}''] = ([Read (nl ''{"type": "shutdown"}'')], Break)
   \<and> mkdtemps (fst (tts_main sample_py sample_tts [nl ''{"type": "shutdown"}'']))
       = [''/tmp/actual_reader_tts_a'']
   \<and> rmtrees (fst (tts_main sample_py sample_tts [nl ''{"type": "shutdown"}'']))
       = [''/tmp/actual_reader_tts_a'']
   \<and> snd (tts_main sample_py sample_tts [nl ''{"type": "shutdown"}'']) = Returned 0\<close>
proof -
  have a: "tts_load sample_tts = None" "mkdtemp sample_tts = ''/tmp/actual_reader_tts_a''"
    by (simp_all add: sample_tts_def)
  have b: \<open>main_loop sample_py ''generate'' (generate sample_py sample_tts (mkdtemp sample_tts)) 0
        [nl ''{"type": "shutdown"}''] = ([Read (nl ''{"type": "shutdown"}'')], Break)\<close>
    by (simp add: sample_py_def sample_loads_def sample_lines_def strip_nl_shutdown dict_get_def)
  from tts_temp_dir_lifetime [of sample_py sample_tts \<open>[nl ''{"type": "shutdown"}'']\<close> sample_vis]
    a b
  show ?thesis by (simp del: main_loop.simps)
qed
section \<open>Failures of the model\<close>

lemma take_length_eq_iff: "take (length needle) xs = needle \<longleftrightarrow> (\<exists>s. xs = needle @ s)"
proof
  assume "take (length needle) xs = needle"
  then have "xs = needle @ drop (length needle) xs"
    by (metis append_take_drop_id)
  then show "\<exists>s. xs = needle @ s" ..
next
  assume "\<exists>s. xs = needle @ s"
  then show "take (length needle) xs = needle" by auto
qed

text \<open>\<^const>\<open>contains\<close> is the substring test.\<close>

lemma contains_iff: "contains needle hay \<longleftrightarrow> (\<exists>p s. hay = p @ needle @ s)"
proof (induction hay)
  case Nil
  show ?case by auto
next
  case (Cons c cs)
  have "(\<exists>p s. c # cs = p @ needle @ s)
      \<longleftrightarrow> (\<exists>s. c # cs = needle @ s) \<or> (\<exists>p s. cs = p @ needle @ s)"
    by (auto simp: Cons_eq_append_conv)
  then show ?case
    using Cons.IH by (simp add: take_length_eq_iff del: take_Suc_Cons)
qed





section \<open>The id of a response\<close>

lemma except_clauses_id: "map_of (except_clauses req_id e) ''id'' = Some req_id"
  by (simp add: except_clauses_def error_response_def)

lemma generate_try_id:
  "map_of (fst (generate_try py tts temp_dir c req_id text voice_sample exaggeration cfg_weight
      temperature)) ''id'' = Some req_id"
  by (simp add: generate_try_def except_clauses_id Let_def split: sum.splits option.splits)

lemma caption_try_id:
  "map_of (fst (caption_try py vis c req_id image_path position image_index page_number)) ''id''
     = Some req_id"
  by (simp add: caption_try_def except_clauses_id Let_def split: sum.splits)

lemma generate_id:
  assumes "map_of kvs ''id'' = Some v" "generate py tts temp_dir c (JObj kvs) = Inr (r, c')"
  shows "map_of r ''id'' = Some v"
proof -
  have "generate_try py tts temp_dir c v t voice_sample exaggeration cfg_weight
      temperature = (r, c') \<Longrightarrow> map_of r ''id'' = Some v"
    for t voice_sample exaggeration cfg_weight temperature
    using generate_try_id by (metis fst_conv)
  with assms show ?thesis
    by (auto simp: generate_def bind_exc_Inr dict_get_def error_response_def
        split: if_splits)
qed

lemma caption_id:
  assumes "map_of kvs ''id'' = Some v" "caption py vis c (JObj kvs) = Inr (r, c')"
  shows "map_of r ''id'' = Some v"
proof -
  have "caption_try py vis c v image_path position image_index page_number = (r, c')
      \<Longrightarrow> map_of r ''id'' = Some v"
    for image_path position image_index page_number
    using caption_try_id by (metis fst_conv)
  with assms show ?thesis
    by (auto simp: caption_def bind_exc_Inr dict_get_def error_response_def
        split: if_splits)
qed

text \<open>
  Claim C2: the response to a request that supplies an id carries that id, also when the
  type of the request is unknown or missing. The handlers do so on every path (the lemmas
  above), and the docstring of each module shows an \<^verbatim>\<open>Error\<close> with an id; but the branch of
  the loop that answers an unknown type builds its response without the id of the request
  it has decoded. The line \<^verbatim>\<open>{"type":"ping","id":"r3"}\<close> decodes to an object with the id
  \<^verbatim>\<open>r3\<close>, and the one response either bridge sends for it has no \<^verbatim>\<open>id\<close> entry.
\<close>

theorem unknown_type_response_has_no_id:
  \<open>json_loads sample_py ''{"type":"ping","id":"r3"}''
     = Inr (JObj [(''type'', JStr ''ping''), (''id'', JStr ''r3'')])
   \<and> tts_main sample_py sample_tts [nl ''{"type":"ping","id":"r3"}'']
     = ([Mkdtemp ''/tmp/actual_reader_tts_a'', Send ready,
         Read (nl ''{"type":"ping","id":"r3"}''),
         Send [(''type'', JStr ''error''), (''code'', JStr ''INVALID_REQUEST''),
               (''message'', JStr ''Unknown request type: ping'')],
         Rmtree ''/tmp/actual_reader_tts_a''], Returned 0)
   \<and> vision_main sample_py sample_vis [nl ''{"type":"ping","id":"r3"}'']
     = ([Send ready,
         Read (nl ''{"type":"ping","id":"r3"}''),
         Send [(''type'', JStr ''error''), (''code'', JStr ''INVALID_REQUEST''),
               (''message'', JStr ''Unknown request type: ping'')]], Returned 0)
   \<and> map_of [(''type'', JStr ''error''), (''code'', JStr ''INVALID_REQUEST''),
              (''message'', JStr ''Unknown request type: ping'')] ''id'' = None\<close>
  by (simp del: main_loop.simps
      add: sample_loads_ping sample_ping_run tts_main_def vision_main_def sample_tts_def
        sample_vis_def error_no_id_def Let_def)

section \<open>The validation of a \<^verbatim>\<open>generate\<close> request\<close>

text \<open>
  The three rules of lines 76 to 83, for an object request whose text is a string: each
  error is returned before the options are read, so it does not depend on them. A falsy
  text is answered by \<^verbatim>\<open>Text is empty\<close>, a text of more than 10000 characters by
  \<^verbatim>\<open>Text too long (max 10000 chars)\<close>, and a text of at most 10000 characters with a voice
  sample that is a non-empty path to nothing by \<^verbatim>\<open>VOICE_NOT_FOUND\<close>.
\<close>

lemma generate_validation_errors:
  assumes "dict_get kvs ''text'' (JStr []) = JStr t"
    and "dict_get kvs ''id'' (JStr (''req_'' @ str_nat c)) = req_id"
    and "dict_get kvs ''voice_sample'' JNull = voice_sample"
  shows "(t = [] \<longrightarrow>
           generate py tts temp_dir c (JObj kvs)
             = Inr (error_response req_id ''INVALID_TEXT'' ''Text is empty'', c))
       \<and> (10000 < length t \<longrightarrow>
           generate py tts temp_dir c (JObj kvs)
             = Inr (error_response req_id ''INVALID_TEXT'' ''Text too long (max 10000 chars)'', c))
       \<and> (t \<noteq> [] \<and> length t \<le> 10000 \<and> voice_sample = JStr p \<and> p \<noteq> []
            \<and> \<not> path_exists py p \<longrightarrow>
           generate py tts temp_dir c (JObj kvs)
             = Inr (error_response req_id ''VOICE_NOT_FOUND'' (''Voice sample not found: '' @ p), c))"
proof -
  have a: "t = [] \<longrightarrow>
           generate py tts temp_dir c (JObj kvs)
             = Inr (error_response req_id ''INVALID_TEXT'' ''Text is empty'', c)"
    using assms by (simp add: generate_def)
  have b: "10000 < length t \<longrightarrow>
           generate py tts temp_dir c (JObj kvs)
             = Inr (error_response req_id ''INVALID_TEXT'' ''Text too long (max 10000 chars)'', c)"
    using assms by (auto simp: generate_def)
  have c: "t \<noteq> [] \<and> length t \<le> 10000 \<and> voice_sample = JStr p \<and> p \<noteq> []
            \<and> \<not> path_exists py p \<longrightarrow>
           generate py tts temp_dir c (JObj kvs)
             = Inr (error_response req_id ''VOICE_NOT_FOUND'' (''Voice sample not found: '' @ p), c)"
    using assms by (simp add: generate_def voice_missing_def)
  from a b c show ?thesis by blast
qed

lemma strip_nl_options_null:
  \<open>strip (nl ''{"type":"generate","id":"r8","text":"Hello","options":null}'')
   = ''{"type":"generate","id":"r8","text":"Hello","options":null}''\<close>
  by (simp add: strip_def nl_def is_space_def)

lemma sample_loads_options_null:
  \<open>json_loads sample_py ''{"type":"generate","id":"r8","text":"Hello","options":null}''
     = Inr (JObj [(''type'', JStr ''generate''), (''id'', JStr ''r8''), (''text'', JStr ''Hello''),
                  (''options'', JNull)])\<close>
  by (simp add: sample_py_def sample_loads_def sample_lines_def)

lemma sample_generate_options_null:
  "generate sample_py sample_tts temp_dir 0
     (JObj [(''type'', JStr ''generate''), (''id'', JStr ''r8''), (''text'', JStr ''Hello''),
            (''options'', JNull)])
   = Inl (Exc AttributeError ([CHR 0x27] @ ''NoneType'' @ [CHR 0x27]
            @ '' object has no attribute '' @ [CHR 0x27] @ ''get'' @ [CHR 0x27]))"
  by (simp add: generate_def dict_get_def voice_missing_def)

text \<open>
  Claim C5: the validation of a \<^verbatim>\<open>generate\<close> request applies its three rules in order, and
  a request that passes all three proceeds to the invocation of the model. The rules and
  their order are as claimed (the lemma above), and the request
  \<^verbatim>\<open>{"type":"generate","id":"r4","text":"Hello"}\<close> passes them and is answered with the audio
  the model generated. The same request with \<^verbatim>\<open>"options":null\<close> passes the three rules too
  (its text has five characters and it has no voice sample), but line 86 calls
  \<^verbatim>\<open>options.get\<close> outside the \<^verbatim>\<open>try\<close> statement: \<^verbatim>\<open>generate\<close> raises \<^verbatim>\<open>AttributeError\<close>, the
  model is not invoked, nothing is sent, and \<^verbatim>\<open>main\<close> ends by that exception without
  removing the temporary directory.
\<close>

theorem generate_options_null_raises:
  \<open>json_loads sample_py ''{"type":"generate","id":"r8","text":"Hello","options":null}''
     = Inr (JObj [(''type'', JStr ''generate''), (''id'', JStr ''r8''), (''text'', JStr ''Hello''),
                  (''options'', JNull)])
   \<and> truthy (JStr ''Hello'') \<and> py_len (JStr ''Hello'') = Inr 5
   \<and> voice_missing sample_py JNull = Inr False
   \<and> generate sample_py sample_tts ''/tmp/actual_reader_tts_a'' 0
        (JObj [(''type'', JStr ''generate''), (''id'', JStr ''r8''), (''text'', JStr ''Hello''),
               (''options'', JNull)])
     = Inl (Exc AttributeError ([CHR 0x27] @ ''NoneType'' @ [CHR 0x27]
              @ '' object has no attribute '' @ [CHR 0x27] @ ''get'' @ [CHR 0x27]))
   \<and> tts_main sample_py sample_tts
        [nl ''{"type":"generate","id":"r8","text":"Hello","options":null}'',
         nl ''{"type":"generate","id":"r4","text":"Hello"}'']
     = ([Mkdtemp ''/tmp/actual_reader_tts_a'', Send ready,
         Read (nl ''{"type":"generate","id":"r8","text":"Hello","options":null}'')],
        Raised (Exc AttributeError ([CHR 0x27] @ ''NoneType'' @ [CHR 0x27]
              @ '' object has no attribute '' @ [CHR 0x27] @ ''get'' @ [CHR 0x27])))
   \<and> tts_main sample_py sample_tts [nl ''{"type":"generate","id":"r4","text":"Hello"}'']
     = ([Mkdtemp ''/tmp/actual_reader_tts_a'', Send ready,
         Read (nl ''{"type":"generate","id":"r4","text":"Hello"}''),
         Send [(''type'', JStr ''audio''), (''id'', JStr ''r4''),
               (''path'', JStr ''/tmp/actual_reader_tts_a/tts_0001.wav''),
               (''duration'', JFloat (Finite 2))],
         Rmtree ''/tmp/actual_reader_tts_a''], Returned 0)\<close>
proof -
  have a: \<open>main_loop sample_py ''generate''
        (generate sample_py sample_tts ''/tmp/actual_reader_tts_a'') 0
        [nl ''{"type":"generate","id":"r8","text":"Hello","options":null}'',
         nl ''{"type":"generate","id":"r4","text":"Hello"}'']
     = ([Read (nl ''{"type":"generate","id":"r8","text":"Hello","options":null}'')],
        Uncaught (Exc AttributeError ([CHR 0x27] @ ''NoneType'' @ [CHR 0x27]
              @ '' object has no attribute '' @ [CHR 0x27] @ ''get'' @ [CHR 0x27])))\<close>
    by (simp add: strip_nl_options_null sample_loads_options_null sample_generate_options_null
        dict_get_def)
  have b: "mkdtemp sample_tts = ''/tmp/actual_reader_tts_a''" "tts_load sample_tts = None"
    by (simp_all add: sample_tts_def)
  show ?thesis
    by (simp del: main_loop.simps
        add: sample_loads_options_null sample_generate_options_null voice_missing_def
          tts_main_def Let_def a b sample_hello_run)
qed

section \<open>The validation of a \<^verbatim>\<open>caption\<close> request\<close>

text \<open>
  The two rules of lines 111 to 115, for an object request whose context is absent or an
  object (the rules are reached only then: lines 106 to 108 read the context first). A
  missing image path (no \<^verbatim>\<open>image_path\<close> entry, or a falsy one) is answered by
  \<^verbatim>\<open>INVALID_REQUEST\<close>, \<^verbatim>\<open>image_path is required\<close>, whatever the file system holds; an image
  path that is a non-empty string naming nothing by \<^verbatim>\<open>IMAGE_NOT_FOUND\<close>; an image path that
  exists goes to the \<^verbatim>\<open>try\<close> statement, where an absent \<^verbatim>\<open>position\<close> is \<^verbatim>\<open>middle\<close> and an
  absent \<^verbatim>\<open>image_index\<close> is 0.
\<close>

lemma caption_validation_rules:
  assumes "dict_get kvs ''context'' (JObj []) = JObj ctx"
    and "dict_get kvs ''id'' (JStr (''req_'' @ str_nat c)) = req_id"
    and "dict_get kvs ''image_path'' JNull = image_path"
  shows "(map_of kvs ''image_path'' = None \<or> \<not> truthy image_path \<longrightarrow>
           caption py vis c (JObj kvs)
             = Inr (error_response req_id ''INVALID_REQUEST'' ''image_path is required'', c))
       \<and> (image_path = JStr p \<and> p \<noteq> [] \<and> \<not> path_exists py p \<longrightarrow>
           caption py vis c (JObj kvs)
             = Inr (error_response req_id ''IMAGE_NOT_FOUND'' (''Image not found: '' @ p), c))
       \<and> (image_path = JStr p \<and> p \<noteq> [] \<and> path_exists py p \<longrightarrow>
           caption py vis c (JObj kvs)
             = Inr (caption_try py vis c req_id (JStr p)
                 (dict_get ctx ''position'' (JStr ''middle''))
                 (dict_get ctx ''image_index'' (JInt 0))
                 (dict_get ctx ''page_number'' JNull)))
       \<and> (image_path = JStr p \<and> p \<noteq> [] \<and> path_exists py p
            \<and> map_of ctx ''position'' = None \<and> map_of ctx ''image_index'' = None \<longrightarrow>
           caption py vis c (JObj kvs)
             = Inr (caption_try py vis c req_id (JStr p) (JStr ''middle'') (JInt 0)
                 (dict_get ctx ''page_number'' JNull)))"
proof -
  have m: "map_of kvs ''image_path'' = None \<Longrightarrow> \<not> truthy image_path"
    using assms(3) by (auto simp: dict_get_def)
  have a: "map_of kvs ''image_path'' = None \<or> \<not> truthy image_path \<longrightarrow>
           caption py vis c (JObj kvs)
             = Inr (error_response req_id ''INVALID_REQUEST'' ''image_path is required'', c)"
    using assms m by (auto simp: caption_def)
  have b: "image_path = JStr p \<and> p \<noteq> [] \<and> \<not> path_exists py p \<longrightarrow>
           caption py vis c (JObj kvs)
             = Inr (error_response req_id ''IMAGE_NOT_FOUND'' (''Image not found: '' @ p), c)"
    using assms by (simp add: caption_def)
  have c: "image_path = JStr p \<and> p \<noteq> [] \<and> path_exists py p \<longrightarrow>
           caption py vis c (JObj kvs)
             = Inr (caption_try py vis c req_id (JStr p)
                 (dict_get ctx ''position'' (JStr ''middle''))
                 (dict_get ctx ''image_index'' (JInt 0))
                 (dict_get ctx ''page_number'' JNull))"
    using assms by (simp add: caption_def)
  have d: "map_of ctx ''position'' = None \<and> map_of ctx ''image_index'' = None \<longrightarrow>
      dict_get ctx ''position'' (JStr ''middle'') = JStr ''middle''
      \<and> dict_get ctx ''image_index'' (JInt 0) = JInt 0"
    by (simp add: dict_get_def)
  from a b c d show ?thesis by metis
qed

lemma strip_nl_context_null:
  \<open>strip (nl ''{"type":"caption","id":"r2","context":null}'')
   = ''{"type":"caption","id":"r2","context":null}''\<close>
  by (simp add: strip_def nl_def is_space_def)

lemma sample_loads_context_null:
  \<open>json_loads sample_py ''{"type":"caption","id":"r2","context":null}''
     = Inr (JObj [(''type'', JStr ''caption''), (''id'', JStr ''r2''), (''context'', JNull)])\<close>
  by (simp add: sample_py_def sample_loads_def sample_lines_def)

lemma sample_caption_context_null:
  "caption sample_py sample_vis 0
     (JObj [(''type'', JStr ''caption''), (''id'', JStr ''r2''), (''context'', JNull)])
   = Inl (Exc AttributeError ([CHR 0x27] @ ''NoneType'' @ [CHR 0x27]
            @ '' object has no attribute '' @ [CHR 0x27] @ ''get'' @ [CHR 0x27]))"
  by (simp add: caption_def dict_get_def)

lemma strip_nl_missing_png:
  \<open>strip (nl ''{"type":"caption","id":"r2","image_path":"/missing.png"}'')
   = ''{"type":"caption","id":"r2","image_path":"/missing.png"}''\<close>
  by (simp add: strip_def nl_def is_space_def)

lemma sample_missing_png_run:
  \<open>main_loop sample_py ''caption'' (caption sample_py sample_vis) 0
     [nl ''{"type":"caption","id":"r2","image_path":"/missing.png"}'']
   = ([Read (nl ''{"type":"caption","id":"r2","image_path":"/missing.png"}''),
       Send (error_response (JStr ''r2'') ''IMAGE_NOT_FOUND'' ''Image not found: /missing.png'')],
      Exhausted)\<close>
  by (simp add: strip_nl_missing_png sample_py_def sample_loads_def sample_lines_def
      caption_def dict_get_def followed_by_def)

text \<open>
  Claim C6: a \<^verbatim>\<open>caption\<close> request without an image path is answered by \<^verbatim>\<open>INVALID_REQUEST\<close>,
  one whose image path does not exist by \<^verbatim>\<open>IMAGE_NOT_FOUND\<close>. The two rules and their order
  are as claimed whenever they are reached (the lemma above), and the request
  \<^verbatim>\<open>{"type":"caption","id":"r2","image_path":"/missing.png"}\<close> is answered as the spec says.
  But lines 106 to 108 read the fields of the context before line 111 tests the image
  path, outside the \<^verbatim>\<open>try\<close> statement: the request
  \<^verbatim>\<open>{"type":"caption","id":"r2","context":null}\<close> has no image path, and \<^verbatim>\<open>caption\<close> raises
  \<^verbatim>\<open>AttributeError\<close> on it; no \<^verbatim>\<open>INVALID_REQUEST\<close> is sent, and \<^verbatim>\<open>main\<close> ends by that
  exception.
\<close>

theorem caption_context_null_raises:
  \<open>json_loads sample_py ''{"type":"caption","id":"r2","context":null}''
     = Inr (JObj [(''type'', JStr ''caption''), (''id'', JStr ''r2''), (''context'', JNull)])
   \<and> map_of [(''type'', JStr ''caption''), (''id'', JStr ''r2''), (''context'', JNull)]
        ''image_path'' = None
   \<and> caption sample_py sample_vis 0
        (JObj [(''type'', JStr ''caption''), (''id'', JStr ''r2''), (''context'', JNull)])
     = Inl (Exc AttributeError ([CHR 0x27] @ ''NoneType'' @ [CHR 0x27]
              @ '' object has no attribute '' @ [CHR 0x27] @ ''get'' @ [CHR 0x27]))
   \<and> vision_main sample_py sample_vis
        [nl ''{"type":"caption","id":"r2","context":null}'',
         nl ''{"type":"caption","id":"r2","image_path":"/missing.png"}'']
     = ([Send ready, Read (nl ''{"type":"caption","id":"r2","context":null}'')],
        Raised (Exc AttributeError ([CHR 0x27] @ ''NoneType'' @ [CHR 0x27]
              @ '' object has no attribute '' @ [CHR 0x27] @ ''get'' @ [CHR 0x27])))
   \<and> vision_main sample_py sample_vis
        [nl ''{"type":"caption","id":"r2","image_path":"/missing.png"}'']
     = ([Send ready, Read (nl ''{"type":"caption","id":"r2","image_path":"/missing.png"}''),
         Send [(''type'', JStr ''error''), (''id'', JStr ''r2''),
               (''code'', JStr ''IMAGE_NOT_FOUND''),
               (''message'', JStr ''Image not found: /missing.png'')]],
        Returned 0)\<close>
proof -
  have a: \<open>main_loop sample_py ''caption'' (caption sample_py sample_vis) 0
        [nl ''{"type":"caption","id":"r2","context":null}'',
         nl ''{"type":"caption","id":"r2","image_path":"/missing.png"}'']
     = ([Read (nl ''{"type":"caption","id":"r2","context":null}'')],
        Uncaught (Exc AttributeError ([CHR 0x27] @ ''NoneType'' @ [CHR 0x27]
              @ '' object has no attribute '' @ [CHR 0x27] @ ''get'' @ [CHR 0x27])))\<close>
    by (simp add: strip_nl_context_null sample_loads_context_null sample_caption_context_null
        dict_get_def)
  have b: "vis_load sample_vis = None"
    by (simp add: sample_vis_def)
  show ?thesis
    by (simp del: main_loop.simps
        add: sample_loads_context_null sample_caption_context_null vision_main_def Let_def a b
          sample_missing_png_run error_response_def)
qed

section \<open>The text of a caption\<close>

lemma caption_try_success:
  assumes "caption_try py vis c req_id image_path position image_index page_number = (r, c')"
    and "map_of r ''type'' = Some (JStr ''caption'')"
  shows "\<exists>decoded prefix. describe vis image_path = Inr decoded
      \<and> format_position py position image_index page_number = Inr prefix
      \<and> r = [(''type'', JStr ''caption''), (''id'', req_id),
              (''caption'', JStr (prefix @ '': '' @ strip decoded))]
      \<and> c' = c + 1"
  using assms
  by (auto simp: caption_try_def except_clauses_def error_response_def Let_def
      split: sum.splits if_splits)

lemma format_position_success:
  assumes "format_position py position image_index page_number = Inr prefix"
  shows "\<exists>ordinal pos_desc. ordinal_of py image_index = Inr ordinal
      \<and> pos_desc_of position = Inr pos_desc
      \<and> prefix = (if truthy page_number
           then ordinal @ '' image on page '' @ py_str py page_number @ '', '' @ pos_desc
           else ordinal @ '' image, '' @ pos_desc)"
  using assms
  by (auto simp: format_position_def bind_exc_Inr split: if_splits)

lemma caption_success:
  assumes "caption py vis c request = Inr (r, c')"
    and "map_of r ''type'' = Some (JStr ''caption'')"
  shows "\<exists>kvs ctx. request = JObj kvs \<and> dict_get kvs ''context'' (JObj []) = JObj ctx
      \<and> caption_try py vis c (dict_get kvs ''id'' (JStr (''req_'' @ str_nat c)))
           (dict_get kvs ''image_path'' JNull)
           (dict_get ctx ''position'' (JStr ''middle''))
           (dict_get ctx ''image_index'' (JInt 0))
           (dict_get ctx ''page_number'' JNull) = (r, c')"
proof -
  obtain kvs where req: "request = JObj kvs"
    using assms(1) by (cases request) (simp_all add: caption_def)
  obtain ctx where ctx: "dict_get kvs ''context'' (JObj []) = JObj ctx"
    using assms(1) req
    by (cases "dict_get kvs ''context'' (JObj [])") (simp_all add: caption_def)
  have "caption_try py vis c (dict_get kvs ''id'' (JStr (''req_'' @ str_nat c)))
           (dict_get kvs ''image_path'' JNull)
           (dict_get ctx ''position'' (JStr ''middle''))
           (dict_get ctx ''image_index'' (JInt 0))
           (dict_get ctx ''page_number'' JNull) = (r, c')"
    using assms req ctx
    by (auto simp: caption_def bind_exc_Inr error_response_def split: if_splits)
  with req ctx show ?thesis by blast
qed

lemma str_int_samples: "str_int 11 = ''11''" "str_int 87 = ''87''"
  by code_simp+

lemma strip_sample_description: "strip ''A chart. '' = ''A chart.''"
  by (simp add: strip_def is_space_def)

lemma sample_caption_third:
  "caption sample_py sample_vis 0
     (JObj [(''type'', JStr ''caption''), (''id'', JStr ''r6''), (''image_path'', JStr ''/img.png''),
            (''context'', JObj [(''page_number'', JInt 87), (''image_index'', JInt 2)])])
   = Inr ([(''type'', JStr ''caption''), (''id'', JStr ''r6''),
           (''caption'', JStr ''Third image on page 87, in the middle of the page: A chart.'')], 1)"
  by (simp add: caption_def dict_get_def caption_try_def format_position_def sample_vis_def
      sample_py_def int_ordinal_def ordinals_def position_map_def str_int_samples
      strip_sample_description)

lemma sample_caption_eleventh:
  "caption sample_py sample_vis 0
     (JObj [(''type'', JStr ''caption''), (''id'', JStr ''r6''), (''image_path'', JStr ''/img.png''),
            (''context'', JObj [(''page_number'', JInt 0), (''image_index'', JInt 10),
                                (''position'', JStr ''left'')])])
   = Inr ([(''type'', JStr ''caption''), (''id'', JStr ''r6''),
           (''caption'', JStr ''Image 11 image, on the page: A chart.'')], 1)"
  by (simp add: caption_def dict_get_def caption_try_def format_position_def sample_vis_def
      sample_py_def int_ordinal_def ordinals_def position_map_def str_int_samples
      strip_sample_description)

text \<open>
  Claim C10. Every \<^verbatim>\<open>caption\<close> request that succeeds, that is, is answered by a response of
  type \<^verbatim>\<open>caption\<close>, is an object whose context is absent or an object, and the caption of
  the response is the position prefix, a colon and a space, and the stripped description
  the model decoded. The prefix is the ordinal, \<^verbatim>\<open>image\<close>, \<^verbatim>\<open>on page N\<close> when the page number is
  truthy and nothing when it is falsy, a comma, and the description of the position. The
  ordinal of an index from 0 to 9 is the word \<^verbatim>\<open>First\<close> to \<^verbatim>\<open>Tenth\<close>, and of an index of 10 or
  more it is \<^verbatim>\<open>Image\<close> and the index plus one; a position string that is not a key of the
  table is described as \<^verbatim>\<open>on the page\<close>; an absent page number and the page number 0 are
  both falsy.
\<close>

theorem caption_text:
  "(caption py vis c request = Inr (r, c') \<and> map_of r ''type'' = Some (JStr ''caption'') \<longrightarrow>
      (\<exists>kvs ctx decoded ordinal pos_desc.
         request = JObj kvs \<and> dict_get kvs ''context'' (JObj []) = JObj ctx
       \<and> describe vis (dict_get kvs ''image_path'' JNull) = Inr decoded
       \<and> ordinal_of py (dict_get ctx ''image_index'' (JInt 0)) = Inr ordinal
       \<and> pos_desc_of (dict_get ctx ''position'' (JStr ''middle'')) = Inr pos_desc
       \<and> map_of r ''caption'' = Some (JStr
            ((if truthy (dict_get ctx ''page_number'' JNull)
              then ordinal @ '' image on page ''
                     @ py_str py (dict_get ctx ''page_number'' JNull) @ '', '' @ pos_desc
              else ordinal @ '' image, '' @ pos_desc)
             @ '': '' @ strip decoded))))
   \<and> (0 \<le> i \<and> i \<le> 9 \<longrightarrow>
        ordinal_of py (JInt i)
          = Inr ([''First'', ''Second'', ''Third'', ''Fourth'', ''Fifth'',
                  ''Sixth'', ''Seventh'', ''Eighth'', ''Ninth'', ''Tenth''] ! nat i))
   \<and> (10 \<le> j \<longrightarrow> ordinal_of py (JInt j) = Inr (''Image '' @ str_int (j + 1)))
   \<and> (s \<notin> set [''top'', ''middle'', ''bottom'', ''full-page'', ''inline''] \<longrightarrow>
        pos_desc_of (JStr s) = Inr ''on the page'')
   \<and> (map_of ctx' ''page_number'' = None \<longrightarrow> \<not> truthy (dict_get ctx' ''page_number'' JNull))
   \<and> \<not> truthy (JInt 0)"
proof -
  have a: "\<exists>kvs ctx decoded ordinal pos_desc.
         request = JObj kvs \<and> dict_get kvs ''context'' (JObj []) = JObj ctx
       \<and> describe vis (dict_get kvs ''image_path'' JNull) = Inr decoded
       \<and> ordinal_of py (dict_get ctx ''image_index'' (JInt 0)) = Inr ordinal
       \<and> pos_desc_of (dict_get ctx ''position'' (JStr ''middle'')) = Inr pos_desc
       \<and> map_of r ''caption'' = Some (JStr
            ((if truthy (dict_get ctx ''page_number'' JNull)
              then ordinal @ '' image on page ''
                     @ py_str py (dict_get ctx ''page_number'' JNull) @ '', '' @ pos_desc
              else ordinal @ '' image, '' @ pos_desc)
             @ '': '' @ strip decoded))"
    if ok: "caption py vis c request = Inr (r, c')"
      and ty: "map_of r ''type'' = Some (JStr ''caption'')"
  proof -
    from caption_success [OF ok ty] obtain kvs ctx where
      req: "request = JObj kvs" and ctx: "dict_get kvs ''context'' (JObj []) = JObj ctx"
      and tr: "caption_try py vis c (dict_get kvs ''id'' (JStr (''req_'' @ str_nat c)))
           (dict_get kvs ''image_path'' JNull)
           (dict_get ctx ''position'' (JStr ''middle''))
           (dict_get ctx ''image_index'' (JInt 0))
           (dict_get ctx ''page_number'' JNull) = (r, c')"
      by blast
    from caption_try_success [OF tr ty] obtain decoded prefix where
      de: "describe vis (dict_get kvs ''image_path'' JNull) = Inr decoded"
      and fp: "format_position py (dict_get ctx ''position'' (JStr ''middle''))
           (dict_get ctx ''image_index'' (JInt 0))
           (dict_get ctx ''page_number'' JNull) = Inr prefix"
      and r: "r = [(''type'', JStr ''caption''),
                   (''id'', dict_get kvs ''id'' (JStr (''req_'' @ str_nat c))),
                   (''caption'', JStr (prefix @ '': '' @ strip decoded))]"
      by blast
    from format_position_success [OF fp] obtain ordinal pos_desc where
      od: "ordinal_of py (dict_get ctx ''image_index'' (JInt 0)) = Inr ordinal"
      and pd: "pos_desc_of (dict_get ctx ''position'' (JStr ''middle'')) = Inr pos_desc"
      and pf: "prefix = (if truthy (dict_get ctx ''page_number'' JNull)
           then ordinal @ '' image on page ''
                  @ py_str py (dict_get ctx ''page_number'' JNull) @ '', '' @ pos_desc
           else ordinal @ '' image, '' @ pos_desc)"
      by blast
    have "map_of r ''caption'' = Some (JStr (prefix @ '': '' @ strip decoded))"
      using r by simp
    with req ctx de od pd pf show ?thesis by blast
  qed
  have b: "0 \<le> i \<and> i \<le> 9 \<longrightarrow>
        ordinal_of py (JInt i)
          = Inr ([''First'', ''Second'', ''Third'', ''Fourth'', ''Fifth'',
                  ''Sixth'', ''Seventh'', ''Eighth'', ''Ninth'', ''Tenth''] ! nat i)"
    by (simp add: int_ordinal_def ordinals_def)
  have c: "10 \<le> j \<longrightarrow> ordinal_of py (JInt j) = Inr (''Image '' @ str_int (j + 1))"
    by (simp add: int_ordinal_def ordinals_def)
  have d: "s \<notin> set [''top'', ''middle'', ''bottom'', ''full-page'', ''inline''] \<longrightarrow>
        pos_desc_of (JStr s) = Inr ''on the page''"
    by (simp add: position_map_def)
  have e: "map_of ctx' ''page_number'' = None \<longrightarrow> \<not> truthy (dict_get ctx' ''page_number'' JNull)"
    by (simp add: dict_get_def)
  from a b c d e show ?thesis by simp
qed

theorem caption_text_witness:
  "caption sample_py sample_vis 0
     (JObj [(''type'', JStr ''caption''), (''id'', JStr ''r6''), (''image_path'', JStr ''/img.png''),
            (''context'', JObj [(''page_number'', JInt 87), (''image_index'', JInt 2)])])
     = Inr ([(''type'', JStr ''caption''), (''id'', JStr ''r6''),
             (''caption'', JStr ''Third image on page 87, in the middle of the page: A chart.'')], 1)
   \<and> describe sample_vis (JStr ''/img.png'') = Inr ''A chart. ''
   \<and> ordinal_of sample_py (JInt 2) = Inr ''Third''
   \<and> pos_desc_of (JStr ''middle'') = Inr ''in the middle of the page''
   \<and> caption sample_py sample_vis 0
     (JObj [(''type'', JStr ''caption''), (''id'', JStr ''r6''), (''image_path'', JStr ''/img.png''),
            (''context'', JObj [(''page_number'', JInt 0), (''image_index'', JInt 10),
                                (''position'', JStr ''left'')])])
     = Inr ([(''type'', JStr ''caption''), (''id'', JStr ''r6''),
             (''caption'', JStr ''Image 11 image, on the page: A chart.'')], 1)
   \<and> ordinal_of sample_py (JInt 9) = Inr ''Tenth''
   \<and> ordinal_of sample_py (JInt 10) = Inr ''Image 11''
   \<and> pos_desc_of (JStr ''left'') = Inr ''on the page''
   \<and> \<not> truthy (dict_get [(''image_index'', JInt 3)] ''page_number'' JNull)"
proof -
  note i1 = caption_text [where py = sample_py and vis = sample_vis and c = 0
      and request = "JObj [(''type'', JStr ''caption''), (''id'', JStr ''r6''),
            (''image_path'', JStr ''/img.png''),
            (''context'', JObj [(''page_number'', JInt 87), (''image_index'', JInt 2)])]"
      and r = "[(''type'', JStr ''caption''), (''id'', JStr ''r6''),
             (''caption'', JStr ''Third image on page 87, in the middle of the page: A chart.'')]"
      and c' = 1 and i = 2 and j = 10 and s = "''left''"
      and ctx' = "[(''image_index'', JInt 3)]"]
  note i2 = caption_text [where py = sample_py and vis = sample_vis and c = 0
      and request = "JObj [(''type'', JStr ''caption''), (''id'', JStr ''r6''),
            (''image_path'', JStr ''/img.png''),
            (''context'', JObj [(''page_number'', JInt 0), (''image_index'', JInt 10),
                                (''position'', JStr ''left'')])]"
      and r = "[(''type'', JStr ''caption''), (''id'', JStr ''r6''),
             (''caption'', JStr ''Image 11 image, on the page: A chart.'')]"
      and c' = 1 and i = 9 and j = 10 and s = "''left''"
      and ctx' = "[(''image_index'', JInt 3)]"]
  have d: "describe sample_vis (JStr ''/img.png'') = Inr ''A chart. ''"
    by (simp add: sample_vis_def)
  have p: "pos_desc_of (JStr ''middle'') = Inr ''in the middle of the page''"
    by (simp add: position_map_def)
  from i1 i2 sample_caption_third sample_caption_eleventh d p show ?thesis
    by (simp add: str_int_samples)
qed

section \<open>Lines that end the loop by an exception\<close>

lemma strip_nl_five: "strip (nl ''5'') = ''5''"
  by (simp add: strip_def nl_def is_space_def)

lemma sample_loads_five: "json_loads sample_py ''5'' = Inr (JInt 5)"
  by (simp add: sample_py_def sample_loads_def sample_lines_def)

lemma sample_five_run:
  "main_loop sample_py handled handler c (nl ''5'' # rest)
   = ([Read (nl ''5'')],
      Uncaught (Exc AttributeError ([CHR 0x27] @ ''int'' @ [CHR 0x27]
        @ '' object has no attribute '' @ [CHR 0x27] @ ''get'' @ [CHR 0x27])))"
  by (simp add: strip_nl_five sample_loads_five)

lemma strip_nl_text_five:
  \<open>strip (nl ''{"type":"generate","id":"r5","text":5}'')
   = ''{"type":"generate","id":"r5","text":5}''\<close>
  by (simp add: strip_def nl_def is_space_def)

lemma sample_text_five_run:
  \<open>main_loop sample_py ''generate'' (generate sample_py sample_tts temp_dir) c
     (nl ''{"type":"generate","id":"r5","text":5}'' # rest)
   = ([Read (nl ''{"type":"generate","id":"r5","text":5}'')],
      Uncaught (Exc TypeError (''object of type '' @ [CHR 0x27] @ ''int'' @ [CHR 0x27]
        @ '' has no len()'')))\<close>
  by (simp add: strip_nl_text_five sample_py_def sample_loads_def sample_lines_def
      generate_def dict_get_def)

text \<open>
  Claim C1: every non-empty line that is not a shutdown gets exactly one response, and no
  failure in handling a line ends the loop, also for a line that is valid JSON but not an
  object and for a request with a field of an unexpected type. The loop catches
  \<^verbatim>\<open>json.JSONDecodeError\<close> only, and the handlers read the fields of the request outside
  their \<^verbatim>\<open>try\<close> statement. The line \<^verbatim>\<open>5\<close> decodes to an integer, on which \<^verbatim>\<open>request.get\<close>
  raises \<^verbatim>\<open>AttributeError\<close>; the line \<^verbatim>\<open>{"type":"generate","id":"r5","text":5}\<close> makes
  \<^verbatim>\<open>len(text)\<close> raise \<^verbatim>\<open>TypeError\<close>. In both cases nothing is sent for the line, the next line
  is never read, \<^verbatim>\<open>main\<close> ends by the exception, and the TTS bridge leaves its temporary
  directory behind. A line that is not JSON at all is answered and the loop goes on.
\<close>

theorem uncaught_exception_ends_main:
  \<open>tts_main sample_py sample_tts [nl ''5'', nl ''{"type":"generate","id":"r4","text":"Hello"}'']
     = ([Mkdtemp ''/tmp/actual_reader_tts_a'', Send ready, Read (nl ''5'')],
        Raised (Exc AttributeError ([CHR 0x27] @ ''int'' @ [CHR 0x27]
          @ '' object has no attribute '' @ [CHR 0x27] @ ''get'' @ [CHR 0x27])))
   \<and> vision_main sample_py sample_vis
        [nl ''5'', nl ''{"type":"caption","id":"r2","image_path":"/missing.png"}'']
     = ([Send ready, Read (nl ''5'')],
        Raised (Exc AttributeError ([CHR 0x27] @ ''int'' @ [CHR 0x27]
          @ '' object has no attribute '' @ [CHR 0x27] @ ''get'' @ [CHR 0x27])))
   \<and> tts_main sample_py sample_tts
        [nl ''{"type":"generate","id":"r5","text":5}'',
         nl ''{"type":"generate","id":"r4","text":"Hello"}'']
     = ([Mkdtemp ''/tmp/actual_reader_tts_a'', Send ready,
         Read (nl ''{"type":"generate","id":"r5","text":5}'')],
        Raised (Exc TypeError (''object of type '' @ [CHR 0x27] @ ''int'' @ [CHR 0x27]
          @ '' has no len()'')))
   \<and> tts_main sample_py sample_tts
        [nl ''{"type":'', nl ''{"type":"generate","id":"r4","text":"Hello"}'']
     = ([Mkdtemp ''/tmp/actual_reader_tts_a'', Send ready,
         Read (nl ''{"type":''),
         Send [(''type'', JStr ''error''), (''code'', JStr ''INVALID_REQUEST''),
               (''message'', JStr ''Invalid JSON: Expecting value: line 1 column 9 (char 8)'')],
         Read (nl ''{"type":"generate","id":"r4","text":"Hello"}''),
         Send [(''type'', JStr ''audio''), (''id'', JStr ''r4''),
               (''path'', JStr ''/tmp/actual_reader_tts_a/tts_0001.wav''),
               (''duration'', JFloat (Finite 2))],
         Rmtree ''/tmp/actual_reader_tts_a''], Returned 0)\<close>
proof -
  have b: "mkdtemp sample_tts = ''/tmp/actual_reader_tts_a''" "tts_load sample_tts = None"
    "vis_load sample_vis = None"
    by (simp_all add: sample_tts_def sample_vis_def)
  have c: \<open>main_loop sample_py ''generate''
        (generate sample_py sample_tts ''/tmp/actual_reader_tts_a'') 0
        [nl ''{"type":'', nl ''{"type":"generate","id":"r4","text":"Hello"}'']
     = ([Read (nl ''{"type":''),
         Send [(''type'', JStr ''error''), (''code'', JStr ''INVALID_REQUEST''),
               (''message'', JStr ''Invalid JSON: Expecting value: line 1 column 9 (char 8)'')],
         Read (nl ''{"type":"generate","id":"r4","text":"Hello"}''),
         Send [(''type'', JStr ''audio''), (''id'', JStr ''r4''),
               (''path'', JStr ''/tmp/actual_reader_tts_a/tts_0001.wav''),
               (''duration'', JFloat (Finite 2))]], Exhausted)\<close>
    using sample_hello_run
    by (simp del: main_loop.simps
        add: main_loop.simps(2) [of _ _ _ _ \<open>nl ''{"type":''\<close>] strip_nl_bad
          sample_py_def sample_loads_def sample_lines_def error_no_id_def followed_by_def)
  show ?thesis
    by (simp del: main_loop.simps
        add: tts_main_def vision_main_def Let_def b c sample_five_run sample_text_five_run)
qed


end
